theory Spec2Isabelle
  imports Complex_Main "HOL-Library.Signed_Division"
begin

section \<open>Data model of the multirotor mixer\<close>

text \<open>
  The source computes on C \<open>float\<close>. The model computes on \<^typ>\<open>real\<close>: every constant has
  the decimal value written in the source and arithmetic is exact, so rounding and infinities
  are outside the model, and so is a NaN that a caller passes in. A C array reached through a
  pointer (\<open>float *outputs\<close>, \<open>_tmp_array\<close>, \<open>_outputs_prev\<close>) is a function from the index to
  the stored value: the source checks no index against a bound, and neither does the model, so
  a store beyond the intended length is visible as a changed entry.
\<close>

type_synonym buffer = "nat \<Rightarrow> real"

text \<open>
  One operation of the source makes a NaN out of numbers: \<open>sqrtf\<close> of a negative argument, in
  \<open>mix_vtol\<close>. The values that \<open>mix_vtol\<close> and \<open>mix\<close> store, in the output buffer and in
  \<open>_outputs_prev\<close>, are therefore floats that are a number or NaN: \<open>Some x\<close> is the number
  \<open>x\<close> and \<open>None\<close> is NaN. Arithmetic on a NaN gives NaN, and every comparison with a NaN
  is false.
\<close>

type_synonym float_buffer = "nat \<Rightarrow> real option"

definition fadd :: "real option \<Rightarrow> real option \<Rightarrow> real option" where
  "fadd a b =
     (case a of None \<Rightarrow> None | Some x \<Rightarrow> (case b of None \<Rightarrow> None | Some y \<Rightarrow> Some (x + y)))"

definition fsub :: "real option \<Rightarrow> real option \<Rightarrow> real option" where
  "fsub a b =
     (case a of None \<Rightarrow> None | Some x \<Rightarrow> (case b of None \<Rightarrow> None | Some y \<Rightarrow> Some (x - y)))"

definition flt :: "real option \<Rightarrow> real option \<Rightarrow> bool" where
  "flt a b =
     (case a of None \<Rightarrow> False | Some x \<Rightarrow> (case b of None \<Rightarrow> False | Some y \<Rightarrow> x < y))"

text \<open>\<open>sqrtf\<close> of the C library: the root of a number that is not negative, NaN otherwise.\<close>

definition sqrtf :: "real \<Rightarrow> real option" where
  "sqrtf x = (if x < 0 then None else Some (sqrt x))"

text \<open>\<open>MultirotorMixer::Rotor\<close>: the four response coefficients of one actuator.\<close>

record rotor =
  roll_scale :: real
  pitch_scale :: real
  yaw_scale :: real
  thrust_scale :: real

text \<open>
  \<open>saturation_status\<close>: the source uses the bit fields \<open>flags.valid\<close>, \<open>flags.motor_pos\<close>,
  \<open>flags.motor_neg\<close> and one positive/negative pair per control axis, and clears all of them
  at once through the overlaid integer \<open>value\<close>.
\<close>

record saturation_status =
  valid :: bool
  motor_pos :: bool
  motor_neg :: bool
  roll_pos :: bool
  roll_neg :: bool
  pitch_pos :: bool
  pitch_neg :: bool
  yaw_pos :: bool
  yaw_neg :: bool
  thrust_pos :: bool
  thrust_neg :: bool

text \<open>The report after \<open>_saturation_status.value = 0\<close>: no flag is set.\<close>

definition saturation_status_zero :: saturation_status where
  "saturation_status_zero =
     \<lparr>valid = False, motor_pos = False, motor_neg = False,
      roll_pos = False, roll_neg = False, pitch_pos = False, pitch_neg = False,
      yaw_pos = False, yaw_neg = False, thrust_pos = False, thrust_neg = False\<rparr>"

text \<open>
  The members of a \<open>MultirotorMixer\<close> instance; the prefix \<open>m_\<close> stands for the leading
  underscore of the member names. \<open>get_control\<close> is the control callback of the base class,
  read as \<open>get_control group index\<close>.
\<close>

record mixer =
  m_rotor_count :: nat
  m_rotors :: "rotor list"
  m_roll_scale :: real
  m_pitch_scale :: real
  m_yaw_scale :: real
  m_idle_speed :: real
  m_delta_out_max :: real
  m_outputs_prev :: float_buffer
  m_tmp_array :: buffer
  m_saturation_status :: saturation_status
  get_control :: "nat \<Rightarrow> nat \<Rightarrow> real"

text \<open>\<open>FLT_EPSILON\<close> of \<open>float.h\<close>: the gap between 1 and the next \<open>float\<close>.\<close>

definition FLT_EPSILON :: real where
  "FLT_EPSILON = 1 / 2 ^ 23"

section \<open>The desaturation engine\<close>

text \<open>
  One iteration of the loop of \<open>compute_desaturation_gain\<close>, on the loop state
  \<open>(k_min, k_max, sat_status)\<close>.
\<close>

definition desaturation_gain_step ::
  "buffer \<Rightarrow> buffer \<Rightarrow> real \<Rightarrow> real \<Rightarrow> nat \<Rightarrow>
   real \<times> real \<times> saturation_status \<Rightarrow> real \<times> real \<times> saturation_status" where
  "desaturation_gain_step desaturation_vector outputs min_output max_output i s =
     (case s of (k_min, k_max, sat_status) \<Rightarrow>
        if \<bar>desaturation_vector i\<bar> < FLT_EPSILON then s
        else
          (case (if outputs i < min_output then
                   (let k = (min_output - outputs i) / desaturation_vector i
                    in (if k < k_min then k else k_min,
                        if k > k_max then k else k_max,
                        sat_status\<lparr>motor_neg := True\<rparr>))
                 else (k_min, k_max, sat_status)) of
             (k_min1, k_max1, sat_status1) \<Rightarrow>
               if outputs i > max_output then
                 (let k = (max_output - outputs i) / desaturation_vector i
                  in (if k < k_min1 then k else k_min1,
                      if k > k_max1 then k else k_max1,
                      sat_status1\<lparr>motor_pos := True\<rparr>))
               else (k_min1, k_max1, sat_status1)))"

text \<open>
  \<open>compute_desaturation_gain\<close>: the loop over \<open>i < _rotor_count\<close> from \<open>k_min = k_max = 0\<close>;
  the result is the returned gain and the updated \<open>sat_status\<close>.
\<close>

definition compute_desaturation_gain ::
  "mixer \<Rightarrow> buffer \<Rightarrow> buffer \<Rightarrow> saturation_status \<Rightarrow> real \<Rightarrow> real \<Rightarrow>
   real \<times> saturation_status" where
  "compute_desaturation_gain m desaturation_vector outputs sat_status min_output max_output =
     (case fold (desaturation_gain_step desaturation_vector outputs min_output max_output)
                [0..<m_rotor_count m] (0, 0, sat_status) of
        (k_min, k_max, sat_status') \<Rightarrow> (k_min + k_max, sat_status'))"

text \<open>The loop \<open>outputs[i] += k * desaturation_vector[i]\<close> over \<open>i < _rotor_count\<close>.\<close>

definition add_scaled :: "mixer \<Rightarrow> real \<Rightarrow> buffer \<Rightarrow> buffer \<Rightarrow> buffer" where
  "add_scaled m k desaturation_vector outputs =
     fold (\<lambda>i out. out(i := out i + k * desaturation_vector i)) [0..<m_rotor_count m] outputs"

text \<open>
  \<open>minimize_saturation\<close>: the result is the updated output buffer and the updated
  \<open>sat_status\<close>. The early return leaves \<open>outputs\<close> as it was passed in.
\<close>

definition minimize_saturation ::
  "mixer \<Rightarrow> buffer \<Rightarrow> buffer \<Rightarrow> saturation_status \<Rightarrow> real \<Rightarrow> real \<Rightarrow> bool \<Rightarrow>
   buffer \<times> saturation_status" where
  "minimize_saturation m desaturation_vector outputs sat_status min_output max_output reduce_only =
     (case compute_desaturation_gain m desaturation_vector outputs sat_status
             min_output max_output of
        (k1, sat_status1) \<Rightarrow>
          if reduce_only \<and> k1 > 0 then (outputs, sat_status1)
          else
            (let outputs1 = add_scaled m k1 desaturation_vector outputs
             in case compute_desaturation_gain m desaturation_vector outputs1 sat_status1
                       min_output max_output of
                  (g2, sat_status2) \<Rightarrow>
                    (let k2 = 0.5 * g2
                     in (add_scaled m k2 desaturation_vector outputs1, sat_status2))))"

text \<open>
  The description of the gain in the words of the specification: the list of all computed
  \<open>k\<close>, in loop order, and the two saturation conditions.
\<close>

definition computed_ks :: "nat \<Rightarrow> buffer \<Rightarrow> buffer \<Rightarrow> real \<Rightarrow> real \<Rightarrow> real list" where
  "computed_ks n direction outputs min_output max_output =
     concat (map (\<lambda>i. if \<bar>direction i\<bar> < FLT_EPSILON then []
                       else (if outputs i < min_output
                             then [(min_output - outputs i) / direction i] else []) @
                            (if outputs i > max_output
                             then [(max_output - outputs i) / direction i] else []))
                 [0..<n])"

definition below_min :: "nat \<Rightarrow> buffer \<Rightarrow> buffer \<Rightarrow> real \<Rightarrow> bool" where
  "below_min n direction outputs min_output =
     (\<exists>i \<in> set [0..<n]. \<not> \<bar>direction i\<bar> < FLT_EPSILON \<and> outputs i < min_output)"

definition above_max :: "nat \<Rightarrow> buffer \<Rightarrow> buffer \<Rightarrow> real \<Rightarrow> bool" where
  "above_max n direction outputs max_output =
     (\<exists>i \<in> set [0..<n]. \<not> \<bar>direction i\<bar> < FLT_EPSILON \<and> outputs i > max_output)"

definition spec_gain :: "nat \<Rightarrow> buffer \<Rightarrow> buffer \<Rightarrow> real \<Rightarrow> real \<Rightarrow> real" where
  "spec_gain n direction outputs min_output max_output =
     (let ks = computed_ks n direction outputs min_output max_output
      in Min (set (0 # ks)) + Max (set (0 # ks)))"

section \<open>The full-authority mixing policy\<close>

text \<open>
  Modelled from the spec: the default arguments of \<open>minimize_saturation\<close> are declared in
  \<open>MultirotorMixer.hpp\<close>, which is not among the sources. The specification gives the
  actuator output range as the default bounds and \<open>reduce_only = false\<close>; the range is
  \<open>[0, 1]\<close>, the bounds the source passes wherever it passes bounds for thrust.
\<close>

definition default_min_output :: real where
  "default_min_output = 0"

definition default_max_output :: real where
  "default_max_output = 1"

definition default_reduce_only :: bool where
  "default_reduce_only = False"

text \<open>
  \<open>mix_airmode_rpy\<close>: the mixing loop stores the raw output and the thrust coefficient of
  every rotor, \<open>minimize_saturation\<close> runs on \<open>_tmp_array\<close>, the second loop overwrites
  \<open>_tmp_array\<close> with the yaw coefficients, and \<open>minimize_saturation\<close> runs again. The
  result is the output buffer and the mixer with its updated members.
\<close>

definition mix_airmode_rpy ::
  "mixer \<Rightarrow> real \<Rightarrow> real \<Rightarrow> real \<Rightarrow> real \<Rightarrow> buffer \<Rightarrow> buffer \<times> mixer" where
  "mix_airmode_rpy m roll pitch yaw thrust outputs =
     (case fold (\<lambda>i (out, tmp).
                   (out(i := roll * roll_scale (m_rotors m ! i) +
                              pitch * pitch_scale (m_rotors m ! i) +
                              yaw * yaw_scale (m_rotors m ! i) +
                              thrust * thrust_scale (m_rotors m ! i)),
                    tmp(i := thrust_scale (m_rotors m ! i))))
                [0..<m_rotor_count m] (outputs, m_tmp_array m) of
        (outputs1, tmp1) \<Rightarrow>
          (case minimize_saturation m tmp1 outputs1 (m_saturation_status m)
                  default_min_output default_max_output default_reduce_only of
             (outputs2, sat2) \<Rightarrow>
               (let tmp2 = fold (\<lambda>i tmp. tmp(i := yaw_scale (m_rotors m ! i)))
                                [0..<m_rotor_count m] tmp1
                in case minimize_saturation m tmp2 outputs2 sat2
                          default_min_output default_max_output default_reduce_only of
                     (outputs3, sat3) \<Rightarrow>
                       (outputs3, m\<lparr>m_tmp_array := tmp2, m_saturation_status := sat3\<rparr>))))"

text \<open>
  The vocabulary of the specification for this policy: the raw mix of the four demands, and
  the thrust and yaw columns of the rotor table.
\<close>

definition raw_mix :: "mixer \<Rightarrow> real \<Rightarrow> real \<Rightarrow> real \<Rightarrow> real \<Rightarrow> buffer \<Rightarrow> buffer" where
  "raw_mix m roll pitch yaw thrust outputs =
     (\<lambda>i. if i < m_rotor_count m
          then roll * roll_scale (m_rotors m ! i) + pitch * pitch_scale (m_rotors m ! i) +
               yaw * yaw_scale (m_rotors m ! i) + thrust * thrust_scale (m_rotors m ! i)
          else outputs i)"

definition thrust_column :: "mixer \<Rightarrow> buffer" where
  "thrust_column m = (\<lambda>i. thrust_scale (m_rotors m ! i))"

definition yaw_column :: "mixer \<Rightarrow> buffer" where
  "yaw_column m = (\<lambda>i. yaw_scale (m_rotors m ! i))"

text \<open>
  The policy as the specification words it: the raw mix followed by one desaturation
  against the thrust column and nothing else.
\<close>

definition mix_airmode_rpy_single_pass ::
  "mixer \<Rightarrow> real \<Rightarrow> real \<Rightarrow> real \<Rightarrow> real \<Rightarrow> buffer \<Rightarrow> buffer" where
  "mix_airmode_rpy_single_pass m roll pitch yaw thrust outputs =
     fst (minimize_saturation m (thrust_column m) (raw_mix m roll pitch yaw thrust outputs)
            (m_saturation_status m) default_min_output default_max_output False)"

text \<open>The rotor table \<open>_config_quad_x\<close> of the source.\<close>

definition config_quad_x :: "rotor list" where
  "config_quad_x =
     [\<lparr>roll_scale = -0.707107, pitch_scale = 0.707107, yaw_scale = 1, thrust_scale = 1\<rparr>,
      \<lparr>roll_scale = 0.707107, pitch_scale = -0.707107, yaw_scale = 1, thrust_scale = 1\<rparr>,
      \<lparr>roll_scale = 0.707107, pitch_scale = 0.707107, yaw_scale = -1, thrust_scale = 1\<rparr>,
      \<lparr>roll_scale = -0.707107, pitch_scale = -0.707107, yaw_scale = -1, thrust_scale = 1\<rparr>]"

section \<open>The tilt-rotor allocation\<close>

text \<open>
  Modelled from the spec: \<open>math::constrain\<close> and \<open>math::radians\<close> belong to \<open>mathlib\<close>,
  which is not among the sources. The specification says that a value is clamped to its
  range; \<open>radians\<close> converts degrees.
\<close>

definition constrain :: "real \<Rightarrow> real \<Rightarrow> real \<Rightarrow> real" where
  "constrain val min_val max_val =
     (if val < min_val then min_val else if val > max_val then max_val else val)"

definition radians :: "real \<Rightarrow> real" where
  "radians degrees = degrees * (pi / 180)"

text \<open>
  \<open>atan2f\<close> of the C library on real arguments: the angle of the point \<open>(x, y)\<close> in
  \<open>(-\<pi>, \<pi>]\<close>, and \<open>0\<close> at the origin.
\<close>

definition atan2f :: "real \<Rightarrow> real \<Rightarrow> real" where
  "atan2f y x =
     (if x > 0 then arctan (y / x)
      else if x < 0 then (if y \<ge> 0 then arctan (y / x) + pi else arctan (y / x) - pi)
      else if y > 0 then pi / 2
      else if y < 0 then - (pi / 2)
      else 0)"

text \<open>
  The platform parameters of \<open>mix_vtol\<close>. The locals \<open>C\<close>, \<open>S\<close> and \<open>b\<close> of the source are
  \<open>C_ratio\<close>, \<open>S_ref\<close> and \<open>b_span\<close> here.
\<close>

definition h_0 :: real where "h_0 = 0.015"
definition L_0 :: real where "L_0 = 0.29"
definition l_1 :: real where "l_1 = 0.1575"
definition l_3 :: real where "l_3 = 0.105"
definition l_4 :: real where "l_4 = 0.105"
definition C_T :: real where "C_T = 1.11919 / 10 ^ 5"
definition C_Q :: real where "C_Q = 1.99017 / 10 ^ 7"
definition C_ratio :: real where "C_ratio = C_Q / C_T"
definition d_chi_max :: real where "d_chi_max = radians 10"

definition C_La :: real where "C_La = 0.058649"
definition C_Me :: real where "C_Me = 0.55604"
definition C_Nr :: real where "C_Nr = 0.055604"
definition S_ref :: real where "S_ref = 0.4266"
definition b_span :: real where "b_span = 2"
definition c_bar :: real where "c_bar = 0.2"

definition L_factor :: real where "L_factor = C_La * S_ref * b_span"
definition M_factor :: real where "M_factor = C_Me * S_ref * c_bar"
definition N_factor :: real where "N_factor = C_Nr * S_ref * b_span"

definition delta_min :: real where "delta_min = radians (-35)"
definition delta_max :: real where "delta_max = radians 35"

definition T_MAX :: real where "T_MAX = 48"
definition chi_MAX :: real where "chi_MAX = radians 90"
definition M_MAX :: real where "M_MAX = 2"
definition AIRSPD_MAX :: real where "AIRSPD_MAX = 40"

text \<open>
  The inputs of \<open>mix_vtol\<close> after clamping and denormalisation. The locals \<open>L\<close>, \<open>M\<close>, \<open>N\<close>
  and \<open>T\<close> of the source are \<open>vtol_L\<close>, \<open>vtol_M\<close>, \<open>vtol_N\<close> and \<open>vtol_T\<close>;
  \<open>airspd_clamped\<close> is \<open>airspd\<close> before \<open>airspd *= AIRSPD_MAX\<close>.
\<close>

definition vtol_L :: "mixer \<Rightarrow> real" where
  "vtol_L m = constrain (get_control m 0 0) (-1) 1 * M_MAX"

definition vtol_M :: "mixer \<Rightarrow> real" where
  "vtol_M m = constrain (get_control m 0 1) (-1) 1 * M_MAX"

definition vtol_N :: "mixer \<Rightarrow> real" where
  "vtol_N m = constrain (get_control m 0 2) (-1) 1 * M_MAX"

definition vtol_T :: "mixer \<Rightarrow> real" where
  "vtol_T m = constrain (get_control m 0 3) 0 1 * T_MAX"

definition chi_cmd :: "mixer \<Rightarrow> real" where
  "chi_cmd m = constrain (get_control m 0 4) (-1) 1 * chi_MAX"

definition airspd_clamped :: "mixer \<Rightarrow> real" where
  "airspd_clamped m = constrain (get_control m 0 5) (1 / 10 ^ 8) 1"

definition airspd :: "mixer \<Rightarrow> real" where
  "airspd m = airspd_clamped m * AIRSPD_MAX"

text \<open>
  The control surface deflections. The locals \<open>L_\<close>, \<open>M_\<close> and \<open>N_\<close> of the source are
  \<open>L_aero\<close>, \<open>M_aero\<close> and \<open>N_aero\<close>; \<open>scale_airspd\<close> is the first value of \<open>scale\<close>.
\<close>

definition q_bar :: "mixer \<Rightarrow> real" where
  "q_bar m = 0.5 * 1.2 * airspd m * airspd m"

definition L_aero :: "mixer \<Rightarrow> real" where
  "L_aero m = L_factor * q_bar m"

definition M_aero :: "mixer \<Rightarrow> real" where
  "M_aero m = M_factor * q_bar m"

definition N_aero :: "mixer \<Rightarrow> real" where
  "N_aero m = N_factor * q_bar m"

definition scale_airspd :: "mixer \<Rightarrow> real" where
  "scale_airspd m = constrain ((airspd m - 4) / 6) 0 1"

definition delta_a :: "mixer \<Rightarrow> real" where
  "delta_a m = constrain (vtol_L m / L_aero m * scale_airspd m) delta_min delta_max"

definition delta_e :: "mixer \<Rightarrow> real" where
  "delta_e m = constrain (vtol_M m / M_aero m * scale_airspd m) delta_min delta_max"

definition delta_r :: "mixer \<Rightarrow> real" where
  "delta_r m = constrain (vtol_N m / N_aero m * scale_airspd m) delta_min delta_max"

text \<open>The residual moments, \<open>L\<close>, \<open>M\<close> and \<open>N\<close> after \<open>L -= L_ * delta_a\<close> and its siblings.\<close>

definition L_residual :: "mixer \<Rightarrow> real" where
  "L_residual m = vtol_L m - L_aero m * delta_a m"

definition M_residual :: "mixer \<Rightarrow> real" where
  "M_residual m = vtol_M m - M_aero m * delta_e m"

definition N_residual :: "mixer \<Rightarrow> real" where
  "N_residual m = vtol_N m - N_aero m * delta_r m"

text \<open>
  The pseudoinverse \<open>A_pinv\<close>. The loop over the rows \<open>i = 0, \<dots>, 7\<close> stores each of the 40
  entries once, row \<open>i\<close> at the indices \<open>col + i*5\<close>; \<open>A_pinv chi idx\<close> is the value the loop
  stores at index \<open>idx\<close>, that is the value of column \<open>idx mod 5\<close> in row \<open>idx div 5\<close>. The
  row index is a C \<open>int\<close>, and \<open>%\<close> truncates towards zero (\<open>smod\<close>). The locals that do
  not depend on the row (\<open>l_34\<close>, \<open>temp1\<close>, \<open>temp2\<close>, \<open>denom_1\<close>, \<open>denom_2\<close>) are
  definitions of their own; \<open>l_1_2\<close>, \<open>l_3_2\<close> and \<open>l_4_2\<close> are written as the products
  they abbreviate.
\<close>

definition l_34 :: real where "l_34 = l_3 + l_4"
definition temp1 :: real where "temp1 = 2 * (l_1 * l_1) + l_3 * l_4"
definition temp2 :: real where "temp2 = 2 * temp1 + l_3 * l_3 + l_4 * l_4"

definition denom_1 :: "real \<Rightarrow> real" where
  "denom_1 chi = temp2 + 4 * cos chi * l_1 * l_34"

definition denom_2 :: real where
  "denom_2 = 4 * (C_ratio * C_ratio + L_0 * L_0)"

definition A_pinv :: "real \<Rightarrow> nat \<Rightarrow> real" where
  "A_pinv chi idx =
     (let i = int (idx div 5);
          col = idx mod 5;
          c_chi = cos chi;
          s_chi = sin chi;
          c_2chi = cos (2 * chi);
          s_2chi = sin (2 * chi);
          c_chi2 = c_chi * c_chi;
          denom_1 = denom_1 chi;
          sign_1 = of_bool (i \<ge> 2 \<and> i \<le> 5) * 2 - 1;
          sign_2 = of_bool (i \<ge> 4) * 2 - 1;
          sign_3 = of_bool (i smod 4 = 0 \<or> (i - 1) smod 4 = 0) * 2 - 1;
          l_arm = 0.5 * (1 + sign_1) * l_3 + 0.5 * (1 - sign_1) * l_4;
          l_arm_2 = l_arm * l_arm
      in if i smod 2 = 0 then
           (if col = 0 then
              (temp2 * c_chi - sign_1 * 2 * h_0 * l_34 * s_chi + 4 * l_1 * l_34 * c_chi2)
                / (4 * denom_1)
            else if col = 1 then
              - ((temp1 + l_arm_2) * s_chi + l_1 * l_34 * s_2chi) / (2 * denom_1)
            else if col = 2 then
              (- sign_2 * L_0 * s_chi + sign_3 * C_ratio * c_chi) / denom_2
            else if col = 3 then
              - sign_1 * s_chi * l_34 / (2 * denom_1)
            else
              (sign_2 * L_0 * c_chi + sign_3 * C_ratio * s_chi) / denom_2)
         else
           (if col = 0 then
              (temp2 * s_chi + sign_1 * 2 * h_0 * (c_chi * l_34 + 2 * l_1)
                 + 2 * l_1 * l_34 * s_2chi) / (4 * denom_1)
            else if col = 1 then
              (2 * l_1 * l_arm + (temp1 + l_arm_2) * c_chi + l_1 * l_34 * c_2chi)
                / (2 * denom_1)
            else if col = 2 then
              (sign_2 * L_0 * c_chi + sign_3 * C_ratio * s_chi) / denom_2
            else if col = 3 then
              sign_1 * (2 * l_1 + l_34 * c_chi) / (2 * denom_1)
            else
              (sign_2 * L_0 * s_chi - sign_3 * C_ratio * c_chi) / denom_2))"

text \<open>The eight force components \<open>v[i]\<close>, from the residual moments.\<close>

definition vtol_v :: "mixer \<Rightarrow> nat \<Rightarrow> real" where
  "vtol_v m i =
     A_pinv (chi_cmd m) (5 * i) * vtol_T m * sin (chi_cmd m)
     + A_pinv (chi_cmd m) (5 * i + 1) * vtol_T m * cos (chi_cmd m)
     + A_pinv (chi_cmd m) (5 * i + 2) * L_residual m
     + A_pinv (chi_cmd m) (5 * i + 3) * M_residual m
     + A_pinv (chi_cmd m) (5 * i + 4) * N_residual m"

text \<open>
  The tilt-angle corrections: \<open>scale_thrust\<close> is the second value of \<open>scale\<close>,
  \<open>d_chi_r_raw\<close> and \<open>d_chi_l_raw\<close> are \<open>d_chi_r\<close> and \<open>d_chi_l\<close> before they are
  constrained, \<open>d_chi_r\<close> and \<open>d_chi_l\<close> after.
\<close>

definition scale_thrust :: "mixer \<Rightarrow> real" where
  "scale_thrust m = constrain (0.25 * (vtol_T m - 2)) 0 1"

definition d_chi_r_raw :: "mixer \<Rightarrow> real" where
  "d_chi_r_raw m =
     scale_thrust m * atan2f (vtol_v m 0 + vtol_v m 2) (vtol_v m 1 + vtol_v m 3)"

definition d_chi_l_raw :: "mixer \<Rightarrow> real" where
  "d_chi_l_raw m =
     scale_thrust m * atan2f (vtol_v m 4 + vtol_v m 6) (vtol_v m 5 + vtol_v m 7)"

definition vtol_t1 :: "mixer \<Rightarrow> real" where
  "vtol_t1 m = vtol_v m 0 * sin (d_chi_r_raw m) + vtol_v m 1 * cos (d_chi_r_raw m)"

definition vtol_t2 :: "mixer \<Rightarrow> real" where
  "vtol_t2 m = vtol_v m 2 * sin (d_chi_r_raw m) + vtol_v m 3 * cos (d_chi_r_raw m)"

definition vtol_t3 :: "mixer \<Rightarrow> real" where
  "vtol_t3 m = vtol_v m 4 * sin (d_chi_l_raw m) + vtol_v m 5 * cos (d_chi_l_raw m)"

definition vtol_t4 :: "mixer \<Rightarrow> real" where
  "vtol_t4 m = vtol_v m 6 * sin (d_chi_l_raw m) + vtol_v m 7 * cos (d_chi_l_raw m)"

definition d_chi_r :: "mixer \<Rightarrow> real" where
  "d_chi_r m = constrain (d_chi_r_raw m) (- d_chi_max) d_chi_max"

definition d_chi_l :: "mixer \<Rightarrow> real" where
  "d_chi_l m = constrain (d_chi_l_raw m) (- d_chi_max) d_chi_max"

definition chi_r :: "mixer \<Rightarrow> real" where
  "chi_r m = chi_cmd m + d_chi_r m"

definition chi_l :: "mixer \<Rightarrow> real" where
  "chi_l m = chi_cmd m + d_chi_l m"

text \<open>
  \<open>mix_vtol\<close> stores seven outputs. The four thrust commands take \<open>sqrtf\<close> of an argument
  that no guard keeps from being negative, so each of them is a number or NaN; the two tilt
  commands and the control-surface command are numbers.
\<close>

definition mix_vtol :: "mixer \<Rightarrow> float_buffer \<Rightarrow> float_buffer" where
  "mix_vtol m outputs =
     outputs
       (0 := fadd (Some (- 1.146746)) (sqrtf (0.0821782 + 0.355259 * vtol_t1 m)),
        1 := fadd (Some (- 1.146746)) (sqrtf (0.0821782 + 0.355259 * vtol_t2 m)),
        2 := fadd (Some (- 1.146746)) (sqrtf (0.0821782 + 0.355259 * vtol_t3 m)),
        3 := fadd (Some (- 1.146746)) (sqrtf (0.0821782 + 0.355259 * vtol_t4 m)),
        4 := Some (- 0.9602 * chi_l m + 0.7106),
        5 := Some (0.9602 * chi_r m - 0.7106),
        6 := Some (- (2 * delta_a m - (delta_max + delta_min)) / (delta_max - delta_min)))"

section \<open>The mix entry point\<close>

text \<open>
  The slew-rate check of one tilt output, as \<open>mix\<close> writes it for \<open>outputs[4]\<close> and again
  for \<open>outputs[5]\<close>.
\<close>

definition slew_limit :: "mixer \<Rightarrow> nat \<Rightarrow> float_buffer \<Rightarrow> float_buffer" where
  "slew_limit m idx outputs =
     (let delta_out = fsub (outputs idx) (m_outputs_prev m idx)
      in if flt (Some (m_delta_out_max m)) delta_out
         then outputs(idx := fadd (m_outputs_prev m idx) (Some (m_delta_out_max m)))
         else if flt delta_out (Some (- m_delta_out_max m))
         then outputs(idx := fsub (m_outputs_prev m idx) (Some (m_delta_out_max m)))
         else outputs)"

text \<open>
  \<open>mix\<close>: the result is the returned count, the output buffer and the mixer with its
  updated members.
\<close>

definition mix :: "mixer \<Rightarrow> float_buffer \<Rightarrow> nat \<Rightarrow> nat \<times> float_buffer \<times> mixer" where
  "mix m outputs space =
     (if space < m_rotor_count m then (0, outputs, m)
      else
        (let m1 = m\<lparr>m_saturation_status := saturation_status_zero\<rparr>;
             outputs1 = mix_vtol m1 outputs;
             outputs2 = (if m_delta_out_max m1 > 0
                         then slew_limit m1 5 (slew_limit m1 4 outputs1)
                         else outputs1);
             m2 = m1\<lparr>m_outputs_prev := (m_outputs_prev m1)(4 := outputs2 4)\<rparr>;
             m3 = m2\<lparr>m_outputs_prev := (m_outputs_prev m2)(5 := outputs2 5)\<rparr>;
             m4 = m3\<lparr>m_delta_out_max := 0\<rparr>
         in (7, outputs2, m4)))"

section \<open>Construction from a textual description\<close>

text \<open>
  The geometry catalogue: the parallel tables \<open>_config_key\<close>, \<open>_config_index\<close> and
  \<open>_config_rotor_count\<close>. \<open>MultirotorGeometry::MAX_GEOMETRY\<close> is the number of keys, and a
  geometry is an index into the tables.
\<close>

record catalog =
  config_key :: "string list"
  config_index :: "rotor list list"
  config_rotor_count :: "nat list"

definition MAX_GEOMETRY :: "catalog \<Rightarrow> nat" where
  "MAX_GEOMETRY cat = length (config_key cat)"

text \<open>The catalogue the source defines under \<open>MIXER_MULTIROTOR_USE_MOCK_GEOMETRY\<close>.\<close>

definition mock_catalog :: catalog where
  "mock_catalog =
     \<lparr>config_key = [''4x''], config_index = [config_quad_x], config_rotor_count = [4]\<rparr>"

text \<open>
  The constructor from a rotor table. The members it does not name keep the initial values
  that the class declaration gives them; the declaration is not among the sources, so the
  model takes the freshly declared object as the parameter \<open>decl\<close>. The loop fills
  \<open>_outputs_prev\<close> with the \<open>_idle_speed\<close> of that moment.
\<close>

definition MultirotorMixer_rotors ::
  "mixer \<Rightarrow> (nat \<Rightarrow> nat \<Rightarrow> real) \<Rightarrow> rotor list \<Rightarrow> nat \<Rightarrow> mixer" where
  "MultirotorMixer_rotors decl control_cb rotors rotor_count =
     (let m = decl\<lparr>get_control := control_cb, m_rotor_count := rotor_count,
                    m_rotors := rotors\<rparr>
      in m\<lparr>m_outputs_prev :=
             fold (\<lambda>i prev. prev(i := Some (m_idle_speed m))) [0..<rotor_count]
               (m_outputs_prev m)\<rparr>)"

text \<open>The constructor from a geometry: it delegates, then sets the scales and the idle speed.\<close>

definition MultirotorMixer_geometry ::
  "mixer \<Rightarrow> catalog \<Rightarrow> (nat \<Rightarrow> nat \<Rightarrow> real) \<Rightarrow> nat \<Rightarrow> real \<Rightarrow> real \<Rightarrow> real \<Rightarrow> real \<Rightarrow> mixer" where
  "MultirotorMixer_geometry decl cat control_cb geometry roll_sc pitch_sc yaw_sc idle_speed =
     (MultirotorMixer_rotors decl control_cb
        (config_index cat ! geometry) (config_rotor_count cat ! geometry))
       \<lparr>m_roll_scale := roll_sc,
        m_pitch_scale := pitch_sc,
        m_yaw_scale := yaw_sc,
        m_idle_speed := - 1 + idle_speed * 2\<rparr>"

text \<open>
  Modelled from the spec: \<open>string_well_formed\<close> and \<open>skipline\<close> belong to the base class
  \<open>Mixer\<close>, which is not among the sources. The specification says that parsing fails if
  the line is not newline-terminated; the source says that \<open>skipline\<close> finds no line ending
  when the line is incomplete, and otherwise returns the text after the line and shortens
  \<open>buflen\<close> by what it skipped. A buffer is the text before the terminating NUL.
\<close>

definition string_well_formed :: "string \<Rightarrow> nat \<Rightarrow> bool" where
  "string_well_formed buf buflen =
     (take buflen buf \<noteq> [] \<and> last (take buflen buf) = CHR 0x0A)"

definition skipline :: "string \<Rightarrow> nat \<Rightarrow> (string \<times> nat) option" where
  "skipline buf buflen =
     (let line = takeWhile (\<lambda>c. c \<noteq> CHR 0x0A) (take buflen buf)
      in if length line < length (take buflen buf)
         then Some (drop (length line + 1) buf, buflen - (length line + 1))
         else None)"

text \<open>
  \<open>sscanf\<close> of the C library for the format \<open>"R: %7s %d %d %d %d%n"\<close>: a literal character
  must match, a blank in the format skips white space, \<open>%7s\<close> skips white space and takes
  at most seven characters that are not white space, \<open>%d\<close> skips white space and takes an
  optional sign and decimal digits, \<open>%n\<close> counts the characters consumed. The result is
  \<open>None\<close> when fewer than five conversions succeed. The integers are unbounded.
\<close>

definition isspace :: "char \<Rightarrow> bool" where
  "isspace c = (c \<in> set [CHR '' '', CHR 0x09, CHR 0x0A, CHR 0x0B, CHR 0x0C, CHR 0x0D])"

definition isdigit :: "char \<Rightarrow> bool" where
  "isdigit c = (c \<in> set ''0123456789'')"

definition skip_space :: "string \<Rightarrow> string" where
  "skip_space s = dropWhile isspace s"

definition scan_literal :: "char \<Rightarrow> string \<Rightarrow> string option" where
  "scan_literal c s = (case s of [] \<Rightarrow> None | x # xs \<Rightarrow> if x = c then Some xs else None)"

definition scan_s7 :: "string \<Rightarrow> (string \<times> string) option" where
  "scan_s7 s =
     (let s1 = skip_space s;
          tok = take 7 (takeWhile (\<lambda>c. \<not> isspace c) s1)
      in if tok = [] then None else Some (tok, drop (length tok) s1))"

definition digits_value :: "string \<Rightarrow> int" where
  "digits_value ds = foldl (\<lambda>a c. 10 * a + (of_char c - 48)) 0 ds"

definition scan_d :: "string \<Rightarrow> (int \<times> string) option" where
  "scan_d s =
     (let s1 = skip_space s;
          neg = (s1 \<noteq> [] \<and> hd s1 = CHR ''-'');
          s2 = (if s1 \<noteq> [] \<and> (hd s1 = CHR ''-'' \<or> hd s1 = CHR ''+'') then tl s1 else s1);
          ds = takeWhile isdigit s2
      in if ds = [] then None
         else Some (if neg then - digits_value ds else digits_value ds, drop (length ds) s2))"

definition sscanf_R :: "string \<Rightarrow> (string \<times> int \<times> int \<times> int \<times> int \<times> nat) option" where
  "sscanf_R buf =
     (case scan_literal CHR ''R'' buf of None \<Rightarrow> None | Some r1 \<Rightarrow>
      case scan_literal CHR '':'' r1 of None \<Rightarrow> None | Some r2 \<Rightarrow>
      case scan_s7 (skip_space r2) of None \<Rightarrow> None | Some (geomname, r3) \<Rightarrow>
      case scan_d (skip_space r3) of None \<Rightarrow> None | Some (s0, r4) \<Rightarrow>
      case scan_d (skip_space r4) of None \<Rightarrow> None | Some (s1, r5) \<Rightarrow>
      case scan_d (skip_space r5) of None \<Rightarrow> None | Some (s2, r6) \<Rightarrow>
      case scan_d (skip_space r6) of None \<Rightarrow> None | Some (s3, r7) \<Rightarrow>
        Some (geomname, s0, s1, s2, s3, length buf - length r7))"

text \<open>
  The search loop of \<open>from_text\<close>: the first index whose key equals \<open>geomname\<close>, or
  \<open>MAX_GEOMETRY\<close> when the loop ends without a match.
\<close>

fun find_geometry :: "string \<Rightarrow> string list \<Rightarrow> nat \<Rightarrow> nat" where
  "find_geometry geomname [] i = i"
| "find_geometry geomname (key # keys) i =
     (if geomname = key then i else find_geometry geomname keys (Suc i))"

text \<open>
  \<open>from_text\<close>: the result is the new mixer, or \<open>None\<close> for \<open>nullptr\<close>, and the value of
  \<open>buflen\<close> after the call.
\<close>

definition from_text ::
  "mixer \<Rightarrow> catalog \<Rightarrow> (nat \<Rightarrow> nat \<Rightarrow> real) \<Rightarrow> string \<Rightarrow> nat \<Rightarrow> mixer option \<times> nat" where
  "from_text decl cat control_cb buf buflen =
     (if \<not> string_well_formed buf buflen then (None, buflen)
      else
        case sscanf_R buf of
          None \<Rightarrow> (None, buflen)
        | Some (geomname, s0, s1, s2, s3, used) \<Rightarrow>
            if used > buflen then (None, buflen)
            else
              (case skipline buf buflen of
                 None \<Rightarrow> (None, buflen)
               | Some (buf', buflen') \<Rightarrow>
                   (let geometry = find_geometry geomname (config_key cat) 0
                    in if geometry = MAX_GEOMETRY cat then (None, buflen')
                       else
                         (Some (MultirotorMixer_geometry decl cat control_cb geometry
                                  (real_of_int s0 / 10000) (real_of_int s1 / 10000)
                                  (real_of_int s2 / 10000) (real_of_int s3 / 10000)),
                          buflen'))))"

section \<open>Concrete inputs\<close>

text \<open>A freshly declared mixer with every member zero, and a control source that reads zero.\<close>

definition zero_mixer :: mixer where
  "zero_mixer =
     \<lparr>m_rotor_count = 0, m_rotors = [], m_roll_scale = 0, m_pitch_scale = 0, m_yaw_scale = 0,
      m_idle_speed = 0, m_delta_out_max = 0, m_outputs_prev = (\<lambda>_. Some 0), m_tmp_array = (\<lambda>_. 0),
      m_saturation_status = saturation_status_zero, get_control = (\<lambda>_ _. 0)\<rparr>"

text \<open>The descriptor line of the specification's example.\<close>

definition quad_line :: string where
  "quad_line = ''R: 4x 10000 10000 10000 5000'' @ [CHR 0x0A]"

text \<open>The same line without its line ending, and a line with a key no catalogue has.\<close>

definition unterminated_line :: string where
  "unterminated_line = ''R: 4x 10000 10000 10000 5000''"

definition unknown_line :: string where
  "unknown_line = ''R: 9z 10000 10000 10000 5000'' @ [CHR 0x0A]"

text \<open>The quad-X mixer that \<open>from_text\<close> builds from that line and the mock catalogue.\<close>

definition quad_mixer :: mixer where
  "quad_mixer =
     MultirotorMixer_geometry zero_mixer mock_catalog (\<lambda>_ _. 0) 0 1 1 1 0.5"

text \<open>
  A mixer with seven outputs whose control source reads zero, with a slew-rate ceiling of
  1/10 supplied for the next cycle.
\<close>

definition tilt_mixer :: mixer where
  "tilt_mixer = zero_mixer\<lparr>m_rotor_count := 7, m_delta_out_max := 1 / 10\<rparr>"

text \<open>
  A mixer with seven outputs in cruise: half thrust, full airspeed, tilt command zero and
  no moment demand.
\<close>

definition cruise_mixer :: mixer where
  "cruise_mixer =
     zero_mixer\<lparr>m_rotor_count := 7,
                get_control := (\<lambda>group index. if index = 3 then 1 / 2
                                               else if index = 5 then 1 else 0)\<rparr>"

text \<open>
  A mixer with seven outputs at low speed with a full pitch demand and no thrust: the
  pitch input is 1, the airspeed input is 1/10 (4 m/s), the other inputs are 0, so every
  control input lies within the range it is clamped to.
\<close>

definition pitch_mixer :: mixer where
  "pitch_mixer =
     zero_mixer\<lparr>m_rotor_count := 7,
                get_control := (\<lambda>group index. if index = 1 then 1
                                               else if index = 5 then 1 / 10 else 0)\<rparr>"

text \<open>A mixer that carries a saturation flag from the previous cycle.\<close>

definition flagged_mixer :: mixer where
  "flagged_mixer =
     tilt_mixer\<lparr>m_saturation_status := saturation_status_zero\<lparr>motor_pos := True\<rparr>\<rparr>"

section \<open>Properties of the desaturation engine\<close>

lemma add_scaled_apply:
  "add_scaled m k d outputs i =
     (if i < m_rotor_count m then outputs i + k * d i else outputs i)"
proof -
  have "fold (\<lambda>i out. out(i := out i + k * d i)) [0..<n] outputs i =
          (if i < n then outputs i + k * d i else outputs i)" for n
    by (induction n) auto
  then show ?thesis by (simp add: add_scaled_def)
qed

lemma add_scaled_zero: "add_scaled m 0 d outputs = outputs"
  by (rule ext) (simp add: add_scaled_apply)

lemma if_less_min: "(if k < a then k else a) = min k (a::real)"
  by (simp add: min_def)

lemma if_greater_max: "(if k > a then k else a) = max k (a::real)"
  by (simp add: max_def)

text \<open>The values of \<open>k\<close> computed in iteration \<open>i\<close>.\<close>

lemma computed_ks_Suc:
  "computed_ks (Suc n) d outputs lo hi =
     computed_ks n d outputs lo hi @
       (if \<bar>d n\<bar> < FLT_EPSILON then []
        else (if outputs n < lo then [(lo - outputs n) / d n] else []) @
             (if outputs n > hi then [(hi - outputs n) / d n] else []))"
  by (simp add: computed_ks_def)

lemma below_min_Suc:
  "below_min (Suc n) d outputs lo =
     (below_min n d outputs lo \<or> (\<not> \<bar>d n\<bar> < FLT_EPSILON \<and> outputs n < lo))"
  by (auto simp: below_min_def less_Suc_eq)

lemma above_max_Suc:
  "above_max (Suc n) d outputs hi =
     (above_max n d outputs hi \<or> (\<not> \<bar>d n\<bar> < FLT_EPSILON \<and> outputs n > hi))"
  by (auto simp: above_max_def less_Suc_eq)

lemma gain_step_fold:
  "desaturation_gain_step d outputs lo hi n
     (fold min ks 0, fold max ks 0,
      sat\<lparr>motor_neg := motor_neg sat \<or> bn, motor_pos := motor_pos sat \<or> ab\<rparr>) =
   (fold min (ks @ (if \<bar>d n\<bar> < FLT_EPSILON then []
        else (if outputs n < lo then [(lo - outputs n) / d n] else []) @
             (if outputs n > hi then [(hi - outputs n) / d n] else []))) 0,
    fold max (ks @ (if \<bar>d n\<bar> < FLT_EPSILON then []
        else (if outputs n < lo then [(lo - outputs n) / d n] else []) @
             (if outputs n > hi then [(hi - outputs n) / d n] else []))) 0,
    sat\<lparr>motor_neg := motor_neg sat \<or> (bn \<or> (\<not> \<bar>d n\<bar> < FLT_EPSILON \<and> outputs n < lo)),
        motor_pos := motor_pos sat \<or> (ab \<or> (\<not> \<bar>d n\<bar> < FLT_EPSILON \<and> outputs n > hi))\<rparr>)"
proof (cases "\<bar>d n\<bar> < FLT_EPSILON")
  case True
  then show ?thesis by (simp add: desaturation_gain_step_def)
next
  case eps: False
  show ?thesis
  proof (cases "outputs n < lo")
    case lo: True
    show ?thesis
    proof (cases "outputs n > hi")
      case True
      with eps lo show ?thesis
        by (simp add: desaturation_gain_step_def Let_def if_less_min if_greater_max)
    next
      case False
      with eps lo show ?thesis
        by (simp add: desaturation_gain_step_def Let_def if_less_min if_greater_max)
    qed
  next
    case lo: False
    show ?thesis
    proof (cases "outputs n > hi")
      case True
      with eps lo show ?thesis
        by (simp add: desaturation_gain_step_def Let_def if_less_min if_greater_max)
    next
      case False
      with eps lo show ?thesis
        by (simp add: desaturation_gain_step_def)
    qed
  qed
qed

lemma gain_loop_fold:
  "fold (desaturation_gain_step d outputs lo hi) [0..<n] (0, 0, sat) =
     (fold min (computed_ks n d outputs lo hi) 0,
      fold max (computed_ks n d outputs lo hi) 0,
      sat\<lparr>motor_neg := motor_neg sat \<or> below_min n d outputs lo,
          motor_pos := motor_pos sat \<or> above_max n d outputs hi\<rparr>)"
proof (induction n)
  case 0
  show ?case by (simp add: computed_ks_def below_min_def above_max_def)
next
  case (Suc n)
  have "fold (desaturation_gain_step d outputs lo hi) [0..<Suc n] (0, 0, sat) =
          desaturation_gain_step d outputs lo hi n
            (fold (desaturation_gain_step d outputs lo hi) [0..<n] (0, 0, sat))"
    by simp
  then show ?case
    by (simp only: Suc.IH gain_step_fold computed_ks_Suc below_min_Suc above_max_Suc)
qed

lemma gain_loop_spec:
  "fold (desaturation_gain_step d outputs lo hi) [0..<n] (0, 0, sat) =
     (Min (set (0 # computed_ks n d outputs lo hi)),
      Max (set (0 # computed_ks n d outputs lo hi)),
      sat\<lparr>motor_neg := motor_neg sat \<or> below_min n d outputs lo,
          motor_pos := motor_pos sat \<or> above_max n d outputs hi\<rparr>)"
  unfolding gain_loop_fold Min.set_eq_fold Max.set_eq_fold ..

lemma compute_desaturation_gain_eq:
  "compute_desaturation_gain m direction outputs sat min_output max_output =
     (spec_gain (m_rotor_count m) direction outputs min_output max_output,
      sat\<lparr>motor_neg := motor_neg sat \<or>
                        below_min (m_rotor_count m) direction outputs min_output,
          motor_pos := motor_pos sat \<or>
                        above_max (m_rotor_count m) direction outputs max_output\<rparr>)"
  by (simp add: compute_desaturation_gain_def gain_loop_spec spec_gain_def Let_def)

lemma computed_ks_in_range:
  assumes "\<forall>i<n. lo \<le> outputs i \<and> outputs i \<le> hi"
  shows "computed_ks n d outputs lo hi = []"
  using assms
proof (induction n)
  case 0
  show ?case by (simp add: computed_ks_def)
next
  case (Suc n)
  then have "computed_ks n d outputs lo hi = []" "lo \<le> outputs n" "outputs n \<le> hi"
    by simp_all
  then show ?case by (simp add: computed_ks_Suc)
qed

lemma gain_in_range:
  assumes "\<forall>i<m_rotor_count m. lo \<le> outputs i \<and> outputs i \<le> hi"
  shows "fst (compute_desaturation_gain m d outputs sat lo hi) = 0"
  using computed_ks_in_range [OF assms] by (simp add: compute_desaturation_gain_eq spec_gain_def)

lemma minimize_in_range:
  assumes "\<forall>i<m_rotor_count m. lo \<le> outputs i \<and> outputs i \<le> hi"
  shows "fst (minimize_saturation m d outputs sat lo hi ro) = outputs"
proof -
  obtain s1 where g1: "compute_desaturation_gain m d outputs sat lo hi = (0, s1)"
    using gain_in_range [OF assms, of d sat]
    by (cases "compute_desaturation_gain m d outputs sat lo hi") simp
  obtain s2 where g2: "compute_desaturation_gain m d outputs s1 lo hi = (0, s2)"
    using gain_in_range [OF assms, of d s1]
    by (cases "compute_desaturation_gain m d outputs s1 lo hi") simp
  show ?thesis
    by (simp add: minimize_saturation_def g1 g2 add_scaled_zero)
qed

text \<open>The quad-X mixer of the concrete inputs.\<close>

lemma quad_count: "m_rotor_count quad_mixer = 4"
  by (simp add: quad_mixer_def MultirotorMixer_geometry_def MultirotorMixer_rotors_def
      mock_catalog_def Let_def)

lemma quad_rotors: "m_rotors quad_mixer = config_quad_x"
  by (simp add: quad_mixer_def MultirotorMixer_geometry_def MultirotorMixer_rotors_def
      mock_catalog_def Let_def)

lemma upt_4: "[0..<4] = [0, 1, 2, 3]"
  by (simp add: upt_rec)

text \<open>
  C2. \<open>compute_desaturation_gain\<close> skips the actuators whose direction coefficient is below
  \<open>FLT_EPSILON\<close> in magnitude, computes \<open>k = (min_output - outputs[i]) / direction[i]\<close> for
  each other actuator below \<open>min_output\<close> and \<open>k = (max_output - outputs[i]) / direction[i]\<close>
  for each above \<open>max_output\<close>, sets \<open>motor_neg\<close> in the first case and \<open>motor_pos\<close> in the
  second, and returns the minimum of 0 and all computed \<open>k\<close> plus the maximum of 0 and all
  computed \<open>k\<close>.
\<close>

theorem compute_desaturation_gain_as_specified:
  "compute_desaturation_gain m direction outputs sat min_output max_output =
     (spec_gain (m_rotor_count m) direction outputs min_output max_output,
      sat\<lparr>motor_neg := motor_neg sat \<or>
                        below_min (m_rotor_count m) direction outputs min_output,
          motor_pos := motor_pos sat \<or>
                        above_max (m_rotor_count m) direction outputs max_output\<rparr>)"
  by (rule compute_desaturation_gain_eq)

theorem compute_desaturation_gain_as_specified_witness:
  "compute_desaturation_gain quad_mixer (\<lambda>_. 1) (\<lambda>i. if i < 2 then 3 / 2 else - (1 / 2))
     saturation_status_zero 0 1 =
   (0, saturation_status_zero\<lparr>motor_neg := True, motor_pos := True\<rparr>)"
  using compute_desaturation_gain_as_specified
    [of quad_mixer "\<lambda>_. 1" "\<lambda>i. if i < 2 then 3 / 2 else - (1 / 2)" saturation_status_zero 0 1]
  by (simp add: quad_count spec_gain_def computed_ks_def below_min_def above_max_def upt_4
      FLT_EPSILON_def)

text \<open>
  C3. A call of \<open>minimize_saturation\<close> with \<open>reduce_only = true\<close> whose first gain \<open>k1\<close> is
  strictly positive leaves the output array exactly as it was.
\<close>

theorem minimize_saturation_reduce_only_noop:
  assumes "0 < fst (compute_desaturation_gain m direction outputs sat min_output max_output)"
  shows "fst (minimize_saturation m direction outputs sat min_output max_output True) = outputs"
proof (cases "compute_desaturation_gain m direction outputs sat min_output max_output")
  case (Pair k1 sat1)
  with assms show ?thesis by (simp add: minimize_saturation_def)
qed

theorem minimize_saturation_reduce_only_noop_witness:
  "0 < fst (compute_desaturation_gain quad_mixer (\<lambda>_. 1) (\<lambda>_. - (1 / 2))
             saturation_status_zero 0 1) \<and>
   fst (minimize_saturation quad_mixer (\<lambda>_. 1) (\<lambda>_. - (1 / 2)) saturation_status_zero 0 1 True)
     = (\<lambda>_. - (1 / 2))"
proof -
  have k1: "0 < fst (compute_desaturation_gain quad_mixer (\<lambda>_. 1) (\<lambda>_. - (1 / 2))
                      saturation_status_zero 0 1)"
    by (simp add: compute_desaturation_gain_eq quad_count spec_gain_def computed_ks_def upt_4
        FLT_EPSILON_def)
  from k1 minimize_saturation_reduce_only_noop [OF k1] show ?thesis by simp
qed

text \<open>
  C4. When every element of the outputs array lies within \<open>[min_output, max_output]\<close>,
  \<open>compute_desaturation_gain\<close> returns 0 and \<open>minimize_saturation\<close> leaves the outputs
  unchanged, for every direction vector.
\<close>

theorem in_range_outputs_unchanged:
  assumes "\<forall>i<m_rotor_count m. min_output \<le> outputs i \<and> outputs i \<le> max_output"
  shows "fst (compute_desaturation_gain m direction outputs sat min_output max_output) = 0 \<and>
         fst (minimize_saturation m direction outputs sat min_output max_output reduce_only)
           = outputs"
  using gain_in_range [OF assms] minimize_in_range [OF assms] by simp

theorem in_range_outputs_unchanged_witness:
  "fst (compute_desaturation_gain quad_mixer (yaw_column quad_mixer) (\<lambda>_. 1 / 2)
          saturation_status_zero 0 1) = 0 \<and>
   fst (minimize_saturation quad_mixer (yaw_column quad_mixer) (\<lambda>_. 1 / 2)
          saturation_status_zero 0 1 False) = (\<lambda>_. 1 / 2)"
proof -
  have h: "\<forall>i<m_rotor_count quad_mixer. (0::real) \<le> (\<lambda>_. 1 / 2) i \<and> (\<lambda>_. 1 / 2) i \<le> (1::real)"
    by simp
  from in_range_outputs_unchanged [OF h] show ?thesis by blast
qed

section \<open>Properties of the full-authority policy\<close>

lemma mix_loop:
  "fold (\<lambda>i (out, tmp). (out(i := f i), tmp(i := g i))) [0..<n] (outs, t) =
     ((\<lambda>i. if i < n then f i else outs i), (\<lambda>i. if i < n then g i else t i))"
  by (induction n) (auto simp: fun_eq_iff)

lemma tmp_loop:
  "fold (\<lambda>i tmp. tmp(i := g i)) [0..<n] t = (\<lambda>i. if i < n then g i else (t::buffer) i)"
  by (induction n) (auto simp: fun_eq_iff)

lemma gain_cong:
  assumes "\<forall>i<m_rotor_count m. d i = d' i"
  shows "compute_desaturation_gain m d outs s lo hi = compute_desaturation_gain m d' outs s lo hi"
proof -
  have "fold (desaturation_gain_step d outs lo hi) [0..<m_rotor_count m] (0, 0, s) =
        fold (desaturation_gain_step d' outs lo hi) [0..<m_rotor_count m] (0, 0, s)"
  proof (intro fold_cong refl)
    fix i assume "i \<in> set [0..<m_rotor_count m]"
    with assms have eq: "d i = d' i" by simp
    have "desaturation_gain_step d outs lo hi i = desaturation_gain_step (\<lambda>_. d i) outs lo hi i"
      by (simp add: desaturation_gain_step_def fun_eq_iff)
    also have "\<dots> = desaturation_gain_step (\<lambda>_. d' i) outs lo hi i"
      by (simp only: eq)
    also have "\<dots> = desaturation_gain_step d' outs lo hi i"
      by (simp add: desaturation_gain_step_def fun_eq_iff)
    finally show "desaturation_gain_step d outs lo hi i = desaturation_gain_step d' outs lo hi i" .
  qed
  then show ?thesis by (simp add: compute_desaturation_gain_def)
qed

lemma add_scaled_cong:
  assumes "\<forall>i<m_rotor_count m. d i = d' i"
  shows "add_scaled m k d outs = add_scaled m k d' outs"
  using assms by (auto simp: fun_eq_iff add_scaled_apply)

lemma minimize_cong:
  assumes "\<forall>i<m_rotor_count m. d i = d' i"
  shows "minimize_saturation m d outs s lo hi ro = minimize_saturation m d' outs s lo hi ro"
  unfolding minimize_saturation_def gain_cong [OF assms] add_scaled_cong [OF assms] ..

lemma rpy_two_passes:
  "mix_airmode_rpy m roll pitch yaw thrust outputs =
     (case minimize_saturation m (thrust_column m) (raw_mix m roll pitch yaw thrust outputs)
             (m_saturation_status m) 0 1 False of
        (outputs2, sat2) \<Rightarrow>
          (case minimize_saturation m (yaw_column m) outputs2 sat2 0 1 False of
             (outputs3, sat3) \<Rightarrow>
               (outputs3,
                m\<lparr>m_tmp_array := (\<lambda>i. if i < m_rotor_count m then yaw_scale (m_rotors m ! i)
                                       else m_tmp_array m i),
                  m_saturation_status := sat3\<rparr>)))"
proof -
  let ?t1 = "\<lambda>i. if i < m_rotor_count m then thrust_scale (m_rotors m ! i) else m_tmp_array m i"
  let ?t2 = "\<lambda>i. if i < m_rotor_count m then yaw_scale (m_rotors m ! i) else m_tmp_array m i"
  have c1: "minimize_saturation m ?t1 outs s lo hi ro =
            minimize_saturation m (thrust_column m) outs s lo hi ro" for outs s lo hi ro
    by (rule minimize_cong) (simp add: thrust_column_def)
  have c2: "minimize_saturation m ?t2 outs s lo hi ro =
            minimize_saturation m (yaw_column m) outs s lo hi ro" for outs s lo hi ro
    by (rule minimize_cong) (simp add: yaw_column_def)
  have t2: "fold (\<lambda>i tmp. tmp(i := yaw_scale (m_rotors m ! i))) [0..<m_rotor_count m] ?t1 = ?t2"
    by (simp add: tmp_loop fun_eq_iff)
  show ?thesis
    unfolding mix_airmode_rpy_def mix_loop prod.case Let_def t2 c1 c2
      default_min_output_def default_max_output_def default_reduce_only_def
    by (simp add: raw_mix_def)
qed


lemma minimize_fst:
  "fst (minimize_saturation m d outs s lo hi False) =
     add_scaled m (0.5 * spec_gain (m_rotor_count m) d
                           (add_scaled m (spec_gain (m_rotor_count m) d outs lo hi) d outs) lo hi)
       d (add_scaled m (spec_gain (m_rotor_count m) d outs lo hi) d outs)"
  by (simp add: minimize_saturation_def compute_desaturation_gain_eq Let_def)

lemma quad_raw:
  "raw_mix quad_mixer 0 0 1 (1 / 2) (\<lambda>_. 0) =
     (\<lambda>i. if i < 2 then 3 / 2 else if i < 4 then - (1 / 2) else 0)"
proof
  fix i :: nat
  consider "i = 0" | "i = 1" | "i = 2" | "i = 3" | "4 \<le> i" by linarith
  then show "raw_mix quad_mixer 0 0 1 (1 / 2) (\<lambda>_. 0) i =
      (if i < 2 then 3 / 2 else if i < 4 then - (1 / 2) else 0)"
    by cases (simp_all add: raw_mix_def quad_count quad_rotors config_quad_x_def)
qed

lemma quad_thrust_gain:
  "spec_gain 4 (thrust_column quad_mixer)
     (\<lambda>i. if i < 2 then 3 / 2 else if i < 4 then - (1 / 2) else 0) 0 1 = 0"
  by (simp add: spec_gain_def computed_ks_def upt_4 FLT_EPSILON_def thrust_column_def
      quad_rotors config_quad_x_def)

lemma quad_single_pass:
  "mix_airmode_rpy_single_pass quad_mixer 0 0 1 (1 / 2) (\<lambda>_. 0) =
     (\<lambda>i. if i < 2 then 3 / 2 else if i < 4 then - (1 / 2) else 0)"
  by (simp add: mix_airmode_rpy_single_pass_def default_min_output_def default_max_output_def
      minimize_fst quad_raw quad_count quad_thrust_gain add_scaled_zero)

lemma quad_yaw_gain:
  "spec_gain 4 (yaw_column quad_mixer)
     (\<lambda>i. if i < 2 then 3 / 2 else if i < 4 then - (1 / 2) else 0) 0 1 = - (1 / 2)"
  by (simp add: spec_gain_def computed_ks_def upt_4 FLT_EPSILON_def yaw_column_def
      quad_rotors config_quad_x_def)

lemma quad_yaw_step:
  "add_scaled quad_mixer (- (1 / 2)) (yaw_column quad_mixer)
     (\<lambda>i. if i < 2 then 3 / 2 else if i < 4 then - (1 / 2) else 0) =
   (\<lambda>i. if i < 2 then 1 else 0)"
proof
  fix i :: nat
  consider "i = 0" | "i = 1" | "i = 2" | "i = 3" | "4 \<le> i" by linarith
  then show "add_scaled quad_mixer (- (1 / 2)) (yaw_column quad_mixer)
     (\<lambda>i. if i < 2 then 3 / 2 else if i < 4 then - (1 / 2) else 0) i = (if i < 2 then 1 else 0)"
    by cases (simp_all add: add_scaled_apply quad_count yaw_column_def quad_rotors config_quad_x_def)
qed

lemma quad_yaw_gain2:
  "spec_gain 4 (yaw_column quad_mixer) (\<lambda>i. if i < 2 then 1 else 0) 0 1 = 0"
  by (simp add: spec_gain_def computed_ks_def upt_4 FLT_EPSILON_def yaw_column_def
      quad_rotors config_quad_x_def)

lemma quad_two_pass:
  "fst (mix_airmode_rpy quad_mixer 0 0 1 (1 / 2) (\<lambda>_. 0)) = (\<lambda>i. if i < 2 then 1 else 0)"
proof -
  have p1: "fst (minimize_saturation quad_mixer (thrust_column quad_mixer)
                  (raw_mix quad_mixer 0 0 1 (1 / 2) (\<lambda>_. 0)) s 0 1 False) =
            (\<lambda>i. if i < 2 then 3 / 2 else if i < 4 then - (1 / 2) else 0)" for s
    by (simp add: minimize_fst quad_raw quad_count quad_thrust_gain add_scaled_zero)
  have p2: "fst (minimize_saturation quad_mixer (yaw_column quad_mixer)
                  (\<lambda>i. if i < 2 then 3 / 2 else if i < 4 then - (1 / 2) else 0) s 0 1 False) =
            (\<lambda>i. if i < 2 then 1 else 0)" for s
    by (simp add: minimize_fst quad_count quad_yaw_gain quad_yaw_step quad_yaw_gain2
        add_scaled_zero)
  obtain o2 s2 where m1: "minimize_saturation quad_mixer (thrust_column quad_mixer)
      (raw_mix quad_mixer 0 0 1 (1 / 2) (\<lambda>_. 0)) (m_saturation_status quad_mixer) 0 1 False
        = (o2, s2)"
    by (rule prod.exhaust)
  have o2: "o2 = (\<lambda>i. if i < 2 then 3 / 2 else if i < 4 then - (1 / 2) else 0)"
    using p1 [of "m_saturation_status quad_mixer"] by (simp only: m1 fst_conv)
  obtain o3 s3 where m2: "minimize_saturation quad_mixer (yaw_column quad_mixer) o2 s2 0 1 False
        = (o3, s3)"
    by (rule prod.exhaust)
  have o3: "o3 = (\<lambda>i. if i < 2 then 1 else 0)"
    using p2 [of s2] by (simp only: m2 [unfolded o2] fst_conv)
  show ?thesis
    by (simp only: rpy_two_passes m1 m2 prod.case fst_conv o3)
qed

text \<open>
  C5, as the code has it. \<open>mix_airmode_rpy\<close> computes each raw output as
  \<open>roll*roll_scale + pitch*pitch_scale + yaw*yaw_scale + thrust*thrust_scale\<close> over all
  rotors and then desaturates twice, each time two-sided within the default bounds: first
  against the thrust column of the rotor table, then against the yaw column.
\<close>

theorem mix_airmode_rpy_two_passes:
  "mix_airmode_rpy m roll pitch yaw thrust outputs =
     (case minimize_saturation m (thrust_column m) (raw_mix m roll pitch yaw thrust outputs)
             (m_saturation_status m) 0 1 False of
        (outputs2, sat2) \<Rightarrow>
          (case minimize_saturation m (yaw_column m) outputs2 sat2 0 1 False of
             (outputs3, sat3) \<Rightarrow>
               (outputs3,
                m\<lparr>m_tmp_array := (\<lambda>i. if i < m_rotor_count m then yaw_scale (m_rotors m ! i)
                                       else m_tmp_array m i),
                  m_saturation_status := sat3\<rparr>)))"
  by (rule rpy_two_passes)

text \<open>
  C5, as the specification words it, fails: with yaw 1 and thrust 1/2 on the quad-X table
  the single thrust pass leaves rotor 0 at 3/2, and the code delivers 1.
\<close>

theorem mix_airmode_rpy_single_pass_counterexample:
  "fst (mix_airmode_rpy quad_mixer 0 0 1 (1 / 2) (\<lambda>_. 0)) 0 = 1 \<and>
   mix_airmode_rpy_single_pass quad_mixer 0 0 1 (1 / 2) (\<lambda>_. 0) 0 = 3 / 2 \<and>
   fst (mix_airmode_rpy quad_mixer 0 0 1 (1 / 2) (\<lambda>_. 0)) \<noteq>
     mix_airmode_rpy_single_pass quad_mixer 0 0 1 (1 / 2) (\<lambda>_. 0)"
proof -
  have a: "fst (mix_airmode_rpy quad_mixer 0 0 1 (1 / 2) (\<lambda>_. 0)) 0 = 1"
    by (simp add: quad_two_pass)
  have b: "mix_airmode_rpy_single_pass quad_mixer 0 0 1 (1 / 2) (\<lambda>_. 0) 0 = 3 / 2"
    by (simp add: quad_single_pass)
  from a b have "fst (mix_airmode_rpy quad_mixer 0 0 1 (1 / 2) (\<lambda>_. 0)) 0 \<noteq>
      mix_airmode_rpy_single_pass quad_mixer 0 0 1 (1 / 2) (\<lambda>_. 0) 0"
    by simp
  then have "fst (mix_airmode_rpy quad_mixer 0 0 1 (1 / 2) (\<lambda>_. 0)) \<noteq>
      mix_airmode_rpy_single_pass quad_mixer 0 0 1 (1 / 2) (\<lambda>_. 0)"
    by metis
  with a b show ?thesis by blast
qed

section \<open>Properties of the tilt-rotor allocation\<close>

lemmas platform_defs = h_0_def L_0_def l_1_def l_3_def l_4_def C_T_def C_Q_def C_ratio_def
  l_34_def temp1_def temp2_def denom_1_def denom_2_def

lemma A_pinv_0_even:
  "A_pinv 0 (Suc 0) = 0" "A_pinv 0 3 = 0" "A_pinv 0 11 = 0" "A_pinv 0 13 = 0"
  "A_pinv 0 21 = 0" "A_pinv 0 23 = 0" "A_pinv 0 31 = 0" "A_pinv 0 33 = 0"
  unfolding A_pinv_def Let_def by (simp_all add: signed_modulo_int_def)

lemma A_pinv_0_yaw:
  "A_pinv 0 4 = - (L_0 / denom_2)" "A_pinv 0 14 = - (L_0 / denom_2)"
  "A_pinv 0 24 = L_0 / denom_2" "A_pinv 0 34 = L_0 / denom_2"
  unfolding A_pinv_def Let_def by (simp_all add: signed_modulo_int_def)

lemma A_pinv_0_thrust:
  "A_pinv 0 6 = 1 / 4" "A_pinv 0 16 = 1 / 4" "A_pinv 0 26 = 1 / 4" "A_pinv 0 36 = 1 / 4"
  unfolding A_pinv_def Let_def by (simp_all add: signed_modulo_int_def platform_defs)

lemma neg_sum_divide:
  "(- (2 * a) - b) / d = - ((2 * a + b) / (d::real))"
proof -
  have "- (2 * a) - b = - (2 * a + b)" by simp
  then show ?thesis by (simp only: minus_divide_left)
qed

lemma A_pinv_0_pitch:
  "A_pinv 0 8 = - ((2 * l_1 + l_34) / (2 * denom_1 0))"
  "A_pinv 0 18 = (2 * l_1 + l_34) / (2 * denom_1 0)"
  "A_pinv 0 28 = (2 * l_1 + l_34) / (2 * denom_1 0)"
  "A_pinv 0 38 = - ((2 * l_1 + l_34) / (2 * denom_1 0))"
  unfolding A_pinv_def Let_def by (simp_all add: signed_modulo_int_def neg_sum_divide)

lemma A_pinv_0_odd_yaw:
  "A_pinv 0 9 = - (C_ratio / denom_2)" "A_pinv 0 19 = C_ratio / denom_2"
  "A_pinv 0 29 = - (C_ratio / denom_2)" "A_pinv 0 39 = C_ratio / denom_2"
  unfolding A_pinv_def Let_def by (simp_all add: signed_modulo_int_def)

lemma v_sums:
  assumes "chi_cmd m = 0" "L_residual m = 0"
  shows "vtol_v m 0 + vtol_v m 2 = - (2 * L_0 / denom_2 * N_residual m)"
    and "vtol_v m 4 + vtol_v m 6 = 2 * L_0 / denom_2 * N_residual m"
    and "vtol_v m 1 + vtol_v m 3 = vtol_T m / 2"
    and "vtol_v m 5 + vtol_v m 7 = vtol_T m / 2"
  by (simp_all add: vtol_v_def assms A_pinv_0_even A_pinv_0_yaw A_pinv_0_thrust
      A_pinv_0_pitch A_pinv_0_odd_yaw)

lemma atan2f_minus:
  assumes "0 \<le> x"
  shows "atan2f (- y) x = - atan2f y x"
  using assms by (auto simp: atan2f_def arctan_minus)

lemma constrain_minus:
  assumes "0 \<le> b"
  shows "constrain (- x) (- b) b = - constrain x (- b) b"
  using assms by (auto simp: constrain_def)

lemma vtol_T_nonneg: "0 \<le> vtol_T m"
  by (simp add: vtol_T_def constrain_def T_MAX_def)

lemma d_chi_max_nonneg: "0 \<le> d_chi_max"
  by (simp add: d_chi_max_def radians_def)

lemma tilt_antisymmetric:
  assumes "chi_cmd m = 0" "L_residual m = 0"
  shows "d_chi_r_raw m = - d_chi_l_raw m" and "d_chi_r m = - d_chi_l m"
proof -
  have x: "0 \<le> vtol_T m / 2" using vtol_T_nonneg [of m] by simp
  show raw: "d_chi_r_raw m = - d_chi_l_raw m"
    unfolding d_chi_r_raw_def d_chi_l_raw_def v_sums [OF assms]
    by (simp add: atan2f_minus [OF x])
  show "d_chi_r m = - d_chi_l m"
    by (simp add: d_chi_r_def d_chi_l_def raw constrain_minus [OF d_chi_max_nonneg])
qed

lemma positive_factors:
  "1 / 10 ^ 8 \<le> airspd_clamped m" "airspd_clamped m \<le> 1" "0 < airspd m" "0 < q_bar m"
  "0 < L_aero m" "0 < M_aero m" "0 < N_aero m"
proof -
  show a: "1 / 10 ^ 8 \<le> airspd_clamped m" and "airspd_clamped m \<le> 1"
    by (simp_all add: airspd_clamped_def constrain_def)
  from a have "0 < airspd_clamped m" by simp
  then show s: "0 < airspd m" by (simp add: airspd_def AIRSPD_MAX_def)
  then show q: "0 < q_bar m" by (simp add: q_bar_def)
  from q show "0 < L_aero m" "0 < M_aero m" "0 < N_aero m"
    by (simp_all add: L_aero_def M_aero_def N_aero_def L_factor_def M_factor_def N_factor_def
        C_La_def C_Me_def C_Nr_def S_ref_def b_span_def c_bar_def)
qed

lemma constrain_range:
  assumes "lo \<le> hi"
  shows "lo \<le> constrain x lo hi" and "constrain x lo hi \<le> hi"
  using assms by (auto simp: constrain_def)

lemma chi_cmd_range: "- (pi / 2) \<le> chi_cmd m \<and> chi_cmd m \<le> pi / 2"
proof -
  let ?c = "constrain (get_control m 0 4) (- 1) 1"
  have c: "- 1 \<le> ?c" "?c \<le> 1"
    by (rule constrain_range, simp)+
  have eq: "chi_cmd m = ?c * (pi / 2)"
    by (simp add: chi_cmd_def chi_MAX_def radians_def)
  have "?c * (pi / 2) \<le> 1 * (pi / 2)"
    using c(2) by (intro mult_right_mono) simp_all
  moreover have "(- 1) * (pi / 2) \<le> ?c * (pi / 2)"
    using c(1) by (intro mult_right_mono) simp_all
  ultimately show ?thesis by (simp add: eq)
qed

lemma denominators_positive:
  "0 < denom_1 (chi_cmd m)" "0 < denom_2" "0 < delta_max - delta_min"
proof -
  have "0 \<le> cos (chi_cmd m)"
    using chi_cmd_range [of m] by (intro cos_ge_zero) simp_all
  then have nn: "0 \<le> 4 * cos (chi_cmd m) * l_1 * l_34"
    by (simp add: l_1_def l_34_def l_3_def l_4_def)
  have "0 < temp2" by (simp add: temp2_def temp1_def l_1_def l_3_def l_4_def)
  with nn have "0 < temp2" "0 \<le> 4 * cos (chi_cmd m) * l_1 * l_34" by simp_all
  then show "0 < denom_1 (chi_cmd m)"
    unfolding denom_1_def by (rule add_pos_nonneg)
  show "0 < denom_2" by (simp add: denom_2_def C_ratio_def C_Q_def C_T_def L_0_def)
  show "0 < delta_max - delta_min" by (simp add: delta_max_def delta_min_def radians_def)
qed


lemma zero_control_outputs:
  assumes "get_control m = (\<lambda>_ _. 0)"
  shows "mix_vtol m outs 4 = Some 0.7106" and "mix_vtol m outs 5 = Some (- 0.7106)"
    and "mix_vtol m outs 6 = Some 0"
proof -
  have T: "vtol_T m = 0" by (simp add: vtol_T_def assms constrain_def)
  have st: "scale_thrust m = 0" by (simp add: scale_thrust_def T constrain_def)
  have chi: "chi_cmd m = 0" by (simp add: chi_cmd_def assms constrain_def)
  have d: "d_chi_l m = 0" "d_chi_r m = 0"
    using d_chi_max_nonneg
    by (simp_all add: d_chi_l_def d_chi_r_def d_chi_l_raw_def d_chi_r_raw_def st constrain_def)
  have L: "vtol_L m = 0" by (simp add: vtol_L_def assms constrain_def)
  have da: "delta_a m = 0"
    by (simp add: delta_a_def L constrain_def delta_min_def delta_max_def radians_def)
  show "mix_vtol m outs 4 = Some 0.7106" by (simp add: mix_vtol_def chi_l_def chi d)
  show "mix_vtol m outs 5 = Some (- 0.7106)" by (simp add: mix_vtol_def chi_r_def chi d)
  show "mix_vtol m outs 6 = Some 0"
    by (simp add: mix_vtol_def da delta_min_def delta_max_def radians_def)
qed

lemma quad_control: "get_control quad_mixer = (\<lambda>_ _. 0)"
  by (simp add: quad_mixer_def MultirotorMixer_geometry_def MultirotorMixer_rotors_def Let_def)

lemma quad_delta: "m_delta_out_max quad_mixer = 0"
  by (simp add: quad_mixer_def MultirotorMixer_geometry_def MultirotorMixer_rotors_def Let_def
      zero_mixer_def)

lemma cruise_facts:
  "get_control cruise_mixer 0 0 = 0" "get_control cruise_mixer 0 2 = 0"
  "get_control cruise_mixer 0 3 = 1 / 2" "get_control cruise_mixer 0 4 = 0"
  "get_control cruise_mixer 0 5 = 1"
  by (simp_all add: cruise_mixer_def)

lemma cruise_hyps:
  "chi_cmd cruise_mixer = 0" "10 \<le> airspd cruise_mixer"
  "L_residual cruise_mixer = 0" "N_residual cruise_mixer = 0"
proof -
  show "chi_cmd cruise_mixer = 0" by (simp add: chi_cmd_def cruise_facts constrain_def)
  show "10 \<le> airspd cruise_mixer"
    by (simp add: airspd_def airspd_clamped_def cruise_facts constrain_def AIRSPD_MAX_def)
  have L: "vtol_L cruise_mixer = 0" by (simp add: vtol_L_def cruise_facts constrain_def)
  have N: "vtol_N cruise_mixer = 0" by (simp add: vtol_N_def cruise_facts constrain_def)
  have z: "constrain 0 delta_min delta_max = 0"
    by (simp add: constrain_def delta_min_def delta_max_def radians_def)
  show "L_residual cruise_mixer = 0" by (simp add: L_residual_def delta_a_def L z)
  show "N_residual cruise_mixer = 0" by (simp add: N_residual_def delta_r_def N z)
qed


text \<open>
  C6. In the tilt-rotor allocation, when the airspeed is at or above the threshold of full
  control-surface authority (10 m/s, where \<open>scale\<close> reaches 1), the tilt command is 0 and
  the residual roll and yaw moments are zero, the right-side and left-side tilt-angle
  corrections are equal in magnitude and opposite in sign, before and after they are
  constrained.
\<close>

theorem tilt_corrections_opposite:
  assumes "10 \<le> airspd m" and "chi_cmd m = 0"
    and "L_residual m = 0" and "N_residual m = 0"
  shows "d_chi_r_raw m = - d_chi_l_raw m \<and> \<bar>d_chi_r_raw m\<bar> = \<bar>d_chi_l_raw m\<bar> \<and>
         d_chi_r m = - d_chi_l m \<and> \<bar>d_chi_r m\<bar> = \<bar>d_chi_l m\<bar>"
  using tilt_antisymmetric [OF assms(2) assms(3)] by simp

theorem tilt_corrections_opposite_witness:
  "d_chi_r_raw cruise_mixer = - d_chi_l_raw cruise_mixer \<and>
   \<bar>d_chi_r_raw cruise_mixer\<bar> = \<bar>d_chi_l_raw cruise_mixer\<bar> \<and>
   d_chi_r cruise_mixer = - d_chi_l cruise_mixer \<and>
   \<bar>d_chi_r cruise_mixer\<bar> = \<bar>d_chi_l cruise_mixer\<bar>"
  by (rule tilt_corrections_opposite [OF cruise_hyps(2) cruise_hyps(1) cruise_hyps(3)
        cruise_hyps(4)])

text \<open>
  C10, as the code has it. In \<open>mix_vtol\<close> the airspeed input is clamped to \<open>[1e-8, 1]\<close>
  before it is denormalised, so the dynamic pressure and the aerodynamic moment factors
  \<open>L_\<close>, \<open>M_\<close> and \<open>N_\<close> are strictly positive and no division by them is a division by
  zero; the other divisors of the allocation (\<open>denom_1\<close>, \<open>denom_2\<close> and the deflection
  range) are strictly positive as well, for every control input.
\<close>

theorem airspeed_factors_positive:
  "1 / 10 ^ 8 \<le> airspd_clamped m \<and> airspd_clamped m \<le> 1 \<and>
   0 < q_bar m \<and> 0 < L_aero m \<and> 0 < M_aero m \<and> 0 < N_aero m \<and>
   0 < denom_1 (chi_cmd m) \<and> 0 < denom_2 \<and> 0 < delta_max - delta_min"
  using positive_factors denominators_positive by simp

section \<open>Properties of the mix entry point\<close>

lemmas vtol_defs = mix_vtol_def vtol_t1_def vtol_t2_def vtol_t3_def vtol_t4_def
  chi_l_def chi_r_def d_chi_l_def d_chi_r_def d_chi_l_raw_def d_chi_r_raw_def scale_thrust_def
  vtol_v_def L_residual_def M_residual_def N_residual_def delta_a_def delta_e_def delta_r_def
  scale_airspd_def L_aero_def M_aero_def N_aero_def q_bar_def airspd_def airspd_clamped_def
  chi_cmd_def vtol_T_def vtol_L_def vtol_M_def vtol_N_def

lemma mix_vtol_cong:
  assumes "get_control m = get_control m'"
  shows "mix_vtol m = mix_vtol m'"
  unfolding vtol_defs assms ..

lemma mix_vtol_status [simp]:
  "mix_vtol (m\<lparr>m_saturation_status := s\<rparr>) = mix_vtol m"
  by (rule mix_vtol_cong) simp

lemma mix_insufficient: "space < m_rotor_count m \<Longrightarrow> mix m outputs space = (0, outputs, m)"
  by (simp add: mix_def)

lemma mix_count: "m_rotor_count m \<le> space \<Longrightarrow> fst (mix m outputs space) = 7"
  by (simp add: mix_def Let_def)

lemma mix_status:
  "m_rotor_count m \<le> space \<Longrightarrow>
     m_saturation_status (snd (snd (mix m outputs space))) = saturation_status_zero"
  by (simp add: mix_def Let_def)

lemma mix_outputs:
  "m_rotor_count m \<le> space \<Longrightarrow>
     fst (snd (mix m outputs space)) =
       (if m_delta_out_max m > 0
        then slew_limit m 5 (slew_limit m 4 (mix_vtol m outputs))
        else mix_vtol m outputs)"
  by (simp add: mix_def Let_def slew_limit_def)

lemma slew_limit_other: "j \<noteq> idx \<Longrightarrow> slew_limit m idx outs j = outs j"
  by (simp add: slew_limit_def Let_def)

lemma slew_limit_number:
  assumes "outs idx = Some r" and "m_outputs_prev m idx = Some p"
  shows "slew_limit m idx outs idx =
           Some (if r - p > m_delta_out_max m then p + m_delta_out_max m
                 else if r - p < - m_delta_out_max m then p - m_delta_out_max m
                 else r)"
  by (simp add: slew_limit_def Let_def assms fsub_def fadd_def flt_def)

lemma fsub_SomeD:
  assumes "fsub a b = Some d"
  obtains x y where "a = Some x" and "b = Some y" and "d = x - y"
  using assms by (auto simp: fsub_def split: option.splits)

lemma slew_limit_applied:
  assumes "fsub (outs idx) (m_outputs_prev m idx) = Some d"
    and "0 < m_delta_out_max m" and "m_delta_out_max m < \<bar>d\<bar>"
  shows "fsub (slew_limit m idx outs idx) (m_outputs_prev m idx) =
           Some (sgn d * m_delta_out_max m)"
proof -
  from assms(1) obtain r p where r: "outs idx = Some r" and p: "m_outputs_prev m idx = Some p"
    and d: "d = r - p"
    by (rule fsub_SomeD)
  show ?thesis
  proof (cases "0 < d")
    case True
    with assms(2,3) d show ?thesis
      by (simp add: slew_limit_number [of outs idx r m p, OF r p] p fsub_def sgn_real_def)
  next
    case False
    with assms(2,3) d show ?thesis
      by (simp add: slew_limit_number [of outs idx r m p, OF r p] p fsub_def sgn_real_def)
  qed
qed

lemma tilt_facts:
  "m_rotor_count tilt_mixer = 7" "m_delta_out_max tilt_mixer = 1 / 10"
  "get_control tilt_mixer = (\<lambda>_ _. 0)" "m_outputs_prev tilt_mixer = (\<lambda>_. Some 0)"
  by (simp_all add: tilt_mixer_def zero_mixer_def)

lemma flagged_facts:
  "m_rotor_count flagged_mixer = 7"
  "motor_pos (m_saturation_status flagged_mixer)"
  by (simp_all add: flagged_mixer_def tilt_facts)

text \<open>
  C1, at a failing input. The quad-X mixer has four rotors; called with a buffer of
  capacity 4, \<open>mix\<close> passes its capacity check, returns 7 and stores to the entries 4, 5
  and 6, which lie beyond the capacity.
\<close>

theorem mix_overruns_capacity:
  "fst (mix quad_mixer (\<lambda>_. Some 9) 4) = 7 \<and>
   fst (snd (mix quad_mixer (\<lambda>_. Some 9) 4)) 4 = Some 0.7106 \<and>
   fst (snd (mix quad_mixer (\<lambda>_. Some 9) 4)) 5 = Some (- 0.7106) \<and>
   fst (snd (mix quad_mixer (\<lambda>_. Some 9) 4)) 6 = Some 0"
proof -
  have sp: "m_rotor_count quad_mixer \<le> 4" by (simp add: quad_count)
  show ?thesis
    by (simp add: mix_count [OF sp] mix_outputs [OF sp] quad_delta
        zero_control_outputs [OF quad_control])
qed

text \<open>
  C7. For the tilt outputs 4 and 5 of a \<open>mix\<close> call that passes the capacity check: when
  \<open>_delta_out_max\<close> is positive and the requested change against the stored previous
  value, \<open>outputs[idx] - _outputs_prev[idx]\<close> as \<open>mix_vtol\<close> leaves it, exceeds it in
  magnitude, the applied change is exactly \<open>_delta_out_max\<close> with the sign of the
  requested change; when \<open>_delta_out_max\<close> is not positive, the outputs are those of
  \<open>mix_vtol\<close>, unconstrained.
\<close>

theorem mix_slew_limits_tilt_outputs:
  assumes "m_rotor_count m \<le> space" and "idx = 4 \<or> idx = 5"
  shows "(0 < m_delta_out_max m \<and>
          fsub (mix_vtol m outputs idx) (m_outputs_prev m idx) = Some requested \<and>
          m_delta_out_max m < \<bar>requested\<bar> \<longrightarrow>
            fsub (fst (snd (mix m outputs space)) idx) (m_outputs_prev m idx) =
              Some (sgn requested * m_delta_out_max m)) \<and>
         (m_delta_out_max m \<le> 0 \<longrightarrow> fst (snd (mix m outputs space)) = mix_vtol m outputs)"
proof (intro conjI impI)
  assume "m_delta_out_max m \<le> 0"
  then show "fst (snd (mix m outputs space)) = mix_vtol m outputs"
    by (simp add: mix_outputs [OF assms(1)])
next
  assume h: "0 < m_delta_out_max m \<and>
             fsub (mix_vtol m outputs idx) (m_outputs_prev m idx) = Some requested \<and>
             m_delta_out_max m < \<bar>requested\<bar>"
  then have out: "fst (snd (mix m outputs space)) =
      slew_limit m 5 (slew_limit m 4 (mix_vtol m outputs))"
    by (simp add: mix_outputs [OF assms(1)])
  from assms(2) show "fsub (fst (snd (mix m outputs space)) idx) (m_outputs_prev m idx) =
      Some (sgn requested * m_delta_out_max m)"
  proof
    assume i: "idx = 4"
    have "slew_limit m 5 (slew_limit m 4 (mix_vtol m outputs)) 4 =
            slew_limit m 4 (mix_vtol m outputs) 4"
      by (simp add: slew_limit_other)
    with h i show ?thesis
      by (simp add: out slew_limit_applied)
  next
    assume i: "idx = 5"
    have "slew_limit m 4 (mix_vtol m outputs) 5 = mix_vtol m outputs 5"
      by (simp add: slew_limit_other)
    with h i show ?thesis
      by (simp add: out slew_limit_applied)
  qed
qed

theorem mix_slew_limits_tilt_outputs_witness:
  "fsub (fst (snd (mix tilt_mixer (\<lambda>_. Some 0) 7)) 4) (m_outputs_prev tilt_mixer 4)
     = Some (1 / 10) \<and>
   fsub (fst (snd (mix tilt_mixer (\<lambda>_. Some 0) 7)) 5) (m_outputs_prev tilt_mixer 5)
     = Some (- (1 / 10)) \<and>
   fst (snd (mix quad_mixer (\<lambda>_. Some 0) 7)) = mix_vtol quad_mixer (\<lambda>_. Some 0)"
proof -
  have sp: "m_rotor_count tilt_mixer \<le> 7" by (simp add: tilt_facts)
  have sq: "m_rotor_count quad_mixer \<le> 7" by (simp add: quad_count)
  have a: "fsub (fst (snd (mix tilt_mixer (\<lambda>_. Some 0) 7)) 4) (m_outputs_prev tilt_mixer 4)
             = Some (1 / 10)"
    using mix_slew_limits_tilt_outputs [OF sp, of 4 "\<lambda>_. Some 0" "0.7106"]
    by (simp add: tilt_facts zero_control_outputs [OF tilt_facts(3)] fsub_def)
  have b: "fsub (fst (snd (mix tilt_mixer (\<lambda>_. Some 0) 7)) 5) (m_outputs_prev tilt_mixer 5)
             = Some (- (1 / 10))"
    using mix_slew_limits_tilt_outputs [OF sp, of 5 "\<lambda>_. Some 0" "- 0.7106"]
    by (simp add: tilt_facts zero_control_outputs [OF tilt_facts(3)] fsub_def)
  have c: "fst (snd (mix quad_mixer (\<lambda>_. Some 0) 7)) = mix_vtol quad_mixer (\<lambda>_. Some 0)"
    using mix_slew_limits_tilt_outputs [OF sq, of 4 "\<lambda>_. Some 0"] by (simp add: quad_delta)
  from a b c show ?thesis by blast
qed

text \<open>
  C8, as the code has it. Every \<open>mix\<close> call that passes the capacity check clears all
  saturation status flags, whatever the previous cycle left, and the tilt-rotor path sets
  none, so the report after the call is empty. A call with insufficient capacity returns 0
  and leaves the mixer, its flags included, and the buffer as they were.
\<close>

theorem mix_clears_saturation_status:
  "(m_rotor_count m \<le> space \<longrightarrow>
      m_saturation_status (snd (snd (mix m outputs space))) = saturation_status_zero) \<and>
   (space < m_rotor_count m \<longrightarrow> mix m outputs space = (0, outputs, m))"
  by (simp add: mix_status mix_insufficient)

theorem mix_clears_saturation_status_witness:
  "m_saturation_status (snd (snd (mix flagged_mixer (\<lambda>_. Some 0) 7))) = saturation_status_zero \<and>
   mix flagged_mixer (\<lambda>_. Some 0) 3 = (0, (\<lambda>_. Some 0), flagged_mixer)"
  using mix_clears_saturation_status [of flagged_mixer 7 "\<lambda>_. Some 0"]
    mix_clears_saturation_status [of flagged_mixer 3 "\<lambda>_. Some 0"]
  by (simp add: flagged_facts)

text \<open>
  C8, as the specification words it, fails: a call with insufficient capacity returns 0
  before the reset, and the flag of the previous cycle is still set afterwards.
\<close>

theorem mix_insufficient_keeps_flags_counterexample:
  "fst (mix flagged_mixer (\<lambda>_. Some 0) 3) = 0 \<and>
   motor_pos (m_saturation_status (snd (snd (mix flagged_mixer (\<lambda>_. Some 0) 3)))) \<and>
   m_saturation_status (snd (snd (mix flagged_mixer (\<lambda>_. Some 0) 3))) \<noteq> saturation_status_zero"
proof -
  have "mix flagged_mixer (\<lambda>_. Some 0) 3 = (0, (\<lambda>_. Some 0), flagged_mixer)"
    by (rule mix_insufficient) (simp add: flagged_facts)
  then show ?thesis
    using flagged_facts(2) by (auto simp: saturation_status_zero_def)
qed

text \<open>The pitch demand at low speed: the thrusts \<open>t1\<close> and \<open>t4\<close> of the rotors 0 and 3.\<close>

lemma pitch_facts:
  "m_rotor_count pitch_mixer = 7" "m_delta_out_max pitch_mixer = 0"
  "get_control pitch_mixer 0 0 = 0" "get_control pitch_mixer 0 (Suc 0) = 1"
  "get_control pitch_mixer 0 2 = 0" "get_control pitch_mixer 0 3 = 0"
  "get_control pitch_mixer 0 4 = 0" "get_control pitch_mixer 0 5 = 1 / 10"
  by (simp_all add: pitch_mixer_def zero_mixer_def)

lemma pitch_inputs:
  "chi_cmd pitch_mixer = 0" "vtol_T pitch_mixer = 0" "L_residual pitch_mixer = 0"
  "N_residual pitch_mixer = 0" "M_residual pitch_mixer = 2" "scale_thrust pitch_mixer = 0"
proof -
  show "chi_cmd pitch_mixer = 0" by (simp add: chi_cmd_def pitch_facts constrain_def)
  show T: "vtol_T pitch_mixer = 0" by (simp add: vtol_T_def pitch_facts constrain_def)
  have L: "vtol_L pitch_mixer = 0" by (simp add: vtol_L_def pitch_facts constrain_def)
  have N: "vtol_N pitch_mixer = 0" by (simp add: vtol_N_def pitch_facts constrain_def)
  have M: "vtol_M pitch_mixer = 2" by (simp add: vtol_M_def pitch_facts constrain_def M_MAX_def)
  have z: "constrain 0 delta_min delta_max = 0"
    by (simp add: constrain_def delta_min_def delta_max_def radians_def)
  have sc: "scale_airspd pitch_mixer = 0"
    by (simp add: scale_airspd_def airspd_def airspd_clamped_def pitch_facts constrain_def
        AIRSPD_MAX_def)
  show "L_residual pitch_mixer = 0" by (simp add: L_residual_def delta_a_def L z)
  show "N_residual pitch_mixer = 0" by (simp add: N_residual_def delta_r_def N z)
  show "M_residual pitch_mixer = 2" by (simp add: M_residual_def delta_e_def M sc z)
  show "scale_thrust pitch_mixer = 0" by (simp add: scale_thrust_def T constrain_def)
qed

lemma pitch_thrusts:
  "vtol_t1 pitch_mixer = - (40 / 21)" "vtol_t4 pitch_mixer = - (40 / 21)"
proof -
  have a8: "A_pinv 0 8 = - (20 / 21)" and a38: "A_pinv 0 38 = - (20 / 21)"
    by (simp_all add: A_pinv_0_pitch platform_defs)
  have v1: "vtol_v pitch_mixer (Suc 0) = - (40 / 21)"
    unfolding vtol_v_def pitch_inputs by (simp add: a8)
  have v7: "vtol_v pitch_mixer 7 = - (40 / 21)"
    unfolding vtol_v_def pitch_inputs by (simp add: a38)
  show "vtol_t1 pitch_mixer = - (40 / 21)"
    unfolding vtol_t1_def d_chi_r_raw_def pitch_inputs by (simp add: v1)
  show "vtol_t4 pitch_mixer = - (40 / 21)"
    unfolding vtol_t4_def d_chi_l_raw_def pitch_inputs by (simp add: v7)
qed

text \<open>
  C10, as it is worded, fails in its last clause. With a full pitch demand and no thrust,
  all control inputs within their ranges, the argument of \<open>sqrtf\<close> is negative for the
  rotors 0 and 3: \<open>mix\<close> returns 7 and has stored NaN in \<open>outputs[0]\<close> and \<open>outputs[3]\<close>.
\<close>

theorem mix_vtol_stores_nan_counterexample:
  "mix_vtol pitch_mixer (\<lambda>_. Some 0) 0 = None \<and>
   mix_vtol pitch_mixer (\<lambda>_. Some 0) 3 = None \<and>
   fst (mix pitch_mixer (\<lambda>_. Some 0) 7) = 7 \<and>
   fst (snd (mix pitch_mixer (\<lambda>_. Some 0) 7)) 0 = None \<and>
   fst (snd (mix pitch_mixer (\<lambda>_. Some 0) 7)) 3 = None"
proof -
  have sp: "m_rotor_count pitch_mixer \<le> 7" by (simp add: pitch_facts)
  have n0: "mix_vtol pitch_mixer (\<lambda>_. Some 0) 0 = None"
    by (simp add: mix_vtol_def pitch_thrusts sqrtf_def fadd_def)
  have n3: "mix_vtol pitch_mixer (\<lambda>_. Some 0) 3 = None"
    by (simp add: mix_vtol_def pitch_thrusts sqrtf_def fadd_def)
  from n0 n3 show ?thesis
    by (simp add: mix_count [OF sp] mix_outputs [OF sp] pitch_facts)
qed

section \<open>Properties of the construction from text\<close>

lemma scan_quad_line:
  "sscanf_R quad_line = Some (''4x'', 10000, 10000, 10000, 5000, 28)"
  by code_simp

lemma wf_quad_line: "string_well_formed quad_line 29"
  by (simp add: string_well_formed_def quad_line_def)

lemma len_quad_line: "length quad_line = 29"
  by (simp add: quad_line_def)

lemma skip_quad_line: "skipline quad_line 29 = Some ([], 0)"
  by code_simp

lemma find_geometry_missing:
  "name \<notin> set keys \<Longrightarrow> find_geometry name keys i = i + length keys"
  by (induction keys arbitrary: i) auto

lemma find_geometry_found:
  "name \<in> set keys \<Longrightarrow> find_geometry name keys i < i + length keys"
proof (induction keys arbitrary: i)
  case Nil
  then show ?case by simp
next
  case (Cons k ks)
  show ?case
  proof (cases "name = k")
    case True
    then show ?thesis by simp
  next
    case False
    with Cons.prems have "name \<in> set ks" by simp
    from Cons.IH [OF this, of "Suc i"] False show ?thesis by simp
  qed
qed


lemma from_text_quad_line:
  assumes "''4x'' \<in> set (config_key cat)"
  shows "from_text decl cat cb quad_line (length quad_line) =
           (Some (MultirotorMixer_geometry decl cat cb (find_geometry ''4x'' (config_key cat) 0)
                    1 1 1 (1 / 2)), 0)"
  using find_geometry_found [OF assms, of 0]
  by (simp add: from_text_def wf_quad_line scan_quad_line skip_quad_line len_quad_line
      MAX_GEOMETRY_def)

lemma geometry_fields:
  "m_rotor_count (MultirotorMixer_geometry decl cat cb g r p y idle) = config_rotor_count cat ! g"
  "m_roll_scale (MultirotorMixer_geometry decl cat cb g r p y idle) = r"
  "m_pitch_scale (MultirotorMixer_geometry decl cat cb g r p y idle) = p"
  "m_yaw_scale (MultirotorMixer_geometry decl cat cb g r p y idle) = y"
  "m_idle_speed (MultirotorMixer_geometry decl cat cb g r p y idle) = - 1 + idle * 2"
  by (simp_all add: MultirotorMixer_geometry_def MultirotorMixer_rotors_def Let_def)

lemma from_text_unterminated:
  "\<not> string_well_formed buf buflen \<Longrightarrow> fst (from_text decl cat cb buf buflen) = None"
  by (simp add: from_text_def)

lemma from_text_no_line_end:
  "skipline buf buflen = None \<Longrightarrow> fst (from_text decl cat cb buf buflen) = None"
  by (simp add: from_text_def split: option.splits prod.splits)

lemma from_text_unknown_key:
  assumes "sscanf_R buf = Some (geomname, s0, s1, s2, s3, used)"
    and "geomname \<notin> set (config_key cat)"
  shows "fst (from_text decl cat cb buf buflen) = None"
  using find_geometry_missing [OF assms(2), of 0]
  by (simp add: from_text_def assms(1) MAX_GEOMETRY_def Let_def split: option.splits)

lemma mock_has_quad:
  "''4x'' \<in> set (config_key mock_catalog)"
  "config_rotor_count mock_catalog ! find_geometry ''4x'' (config_key mock_catalog) 0 = 4"
  by (simp_all add: mock_catalog_def)

lemma scan_unknown_line:
  "sscanf_R unknown_line = Some (''9z'', 10000, 10000, 10000, 5000, 28)"
  by code_simp

lemma unterminated_not_wf:
  "\<not> string_well_formed unterminated_line (length unterminated_line)"
  by (simp add: string_well_formed_def unterminated_line_def)

text \<open>
  C9, as the code has it. Parsing the line \<open>"R: 4x 10000 10000 10000 5000\n"\<close> against a
  catalogue that contains a 4-rotor \<open>"4x"\<close> entry succeeds: the constructor receives the
  scales 1, 1, 1 and the idle speed 1/2, each integer divided by 10000, and the mixer it
  builds has roll, pitch and yaw scale 1 and the idle speed shifted to the output range,
  \<open>-1 + 2 * (1/2) = 0\<close>. Parsing a line that is not terminated, or one whose geometry key
  the catalogue does not have, produces no mixer.
\<close>

theorem from_text_contract:
  "(''4x'' \<in> set (config_key cat) \<and>
    config_rotor_count cat ! find_geometry ''4x'' (config_key cat) 0 = 4 \<longrightarrow>
      fst (from_text decl cat cb quad_line (length quad_line)) =
        Some (MultirotorMixer_geometry decl cat cb (find_geometry ''4x'' (config_key cat) 0)
                1 1 1 (1 / 2)) \<and>
      map_option (\<lambda>mx. (m_rotor_count mx, m_roll_scale mx, m_pitch_scale mx, m_yaw_scale mx,
                         m_idle_speed mx))
        (fst (from_text decl cat cb quad_line (length quad_line))) = Some (4, 1, 1, 1, 0)) \<and>
   (\<not> string_well_formed buf buflen \<longrightarrow> fst (from_text decl cat cb buf buflen) = None) \<and>
   (skipline buf buflen = None \<longrightarrow> fst (from_text decl cat cb buf buflen) = None) \<and>
   (sscanf_R buf = Some (geomname, s0, s1, s2, s3, used) \<and> geomname \<notin> set (config_key cat) \<longrightarrow>
      fst (from_text decl cat cb buf buflen) = None)"
  using from_text_unterminated [of buf buflen decl cat cb]
    from_text_no_line_end [of buf buflen decl cat cb]
    from_text_unknown_key [of buf geomname s0 s1 s2 s3 used cat decl cb buflen]
  by (simp add: from_text_quad_line geometry_fields)

theorem from_text_contract_witness:
  "map_option (\<lambda>mx. (m_rotor_count mx, m_roll_scale mx, m_pitch_scale mx, m_yaw_scale mx,
                     m_idle_speed mx))
     (fst (from_text zero_mixer mock_catalog (\<lambda>_ _. 0) quad_line (length quad_line)))
     = Some (4, 1, 1, 1, 0) \<and>
   fst (from_text zero_mixer mock_catalog (\<lambda>_ _. 0) unterminated_line
          (length unterminated_line)) = None \<and>
   fst (from_text zero_mixer mock_catalog (\<lambda>_ _. 0) unknown_line (length unknown_line)) = None"
proof -
  have nk: "''9z'' \<notin> set (config_key mock_catalog)"
    by (simp add: mock_catalog_def)
  show ?thesis
    using from_text_contract [of mock_catalog zero_mixer "\<lambda>_ _. 0" unterminated_line
        "length unterminated_line"]
      from_text_contract [of mock_catalog zero_mixer "\<lambda>_ _. 0" unknown_line
        "length unknown_line" "''9z''" 10000 10000 10000 5000 28]
    by (simp add: mock_has_quad unterminated_not_wf scan_unknown_line nk)
qed

text \<open>
  C9, as the specification words it, fails: the mixer built from the line has the idle
  speed 0, not 1/2.
\<close>

theorem from_text_idle_speed_counterexample:
  "map_option m_idle_speed
     (fst (from_text zero_mixer mock_catalog (\<lambda>_ _. 0) quad_line (length quad_line))) = Some 0 \<and>
   map_option m_idle_speed
     (fst (from_text zero_mixer mock_catalog (\<lambda>_ _. 0) quad_line (length quad_line)))
     \<noteq> Some (1 / 2)"
  by (simp add: from_text_quad_line mock_has_quad geometry_fields)

end
